theory Spec2Isabelle
  imports Main "HOL-Library.Word"
begin

section \<open>Common types\<close>

text \<open>
  Go's \<^verbatim>\<open>int64\<close> is a 64-bit word read in two's complement: arithmetic wraps
  around and comparisons are the signed ones. A \<^verbatim>\<open>time.Time\<close> is an
  instant, modelled as the integer count of nanoseconds since the zero
  \<^verbatim>\<open>time.Time\<close>; every call of \<^verbatim>\<open>time.Now()\<close> in the source is an
  explicit argument of the model.
  A Go \<^verbatim>\<open>error\<close> made by \<^verbatim>\<open>fmt.Errorf\<close> or \<^verbatim>\<open>errors.New\<close>
  carries its message; a run-time panic is kept apart from it.
\<close>

type_synonym int64 = "64 word"
type_synonym time = int

datatype error = Error string | Panic string

text \<open>\<^verbatim>\<open>err.Error()\<close>: the message of an error.\<close>

fun message_of :: "error \<Rightarrow> string" where
  "message_of (Error msg) = msg"
| "message_of (Panic msg) = msg"

section \<open>Pre-authorized budgets (middleware.go)\<close>

record PreAuthBudget =
  ID :: string
  AgentID :: string
  WalletAddress :: string
  TotalBudget :: int64
  Remaining :: int64
  Currency :: string
  CreatedAt :: time
  ExpiresAt :: time
  Metadata :: "(string \<times> string) list"
  TotalSpent :: int64
  RequestCount :: int64

text \<open>
  The store keeps two indices. The source stores pointers to budgets; every
  operation runs under the store's lock and reads the budget through the index, so
  the model stores the budget values and returns the updated store.
\<close>

record InMemoryPreAuthStore =
  budgets :: "string \<rightharpoonup> PreAuthBudget"
  byAgent :: "string \<rightharpoonup> string"

definition NewInMemoryPreAuthStore :: InMemoryPreAuthStore where
  "NewInMemoryPreAuthStore = \<lparr>budgets = Map.empty, byAgent = Map.empty\<rparr>"

text \<open>\<^verbatim>\<open>hex.EncodeToString\<close>: two lower-case hexadecimal digits per byte.\<close>

definition hextable :: string where
  "hextable = ''0123456789abcdef''"

fun EncodeToString :: "8 word list \<Rightarrow> string" where
  "EncodeToString [] = []"
| "EncodeToString (v # vs) =
     hextable ! (unat v div 16) # hextable ! (unat v mod 16) # EncodeToString vs"

text \<open>
  \<^verbatim>\<open>make([]byte, 16)\<close> is sixteen zero bytes, and the source does not fill
  them before encoding.
\<close>

definition generateBudgetID :: string where
  "generateBudgetID = ''budget_'' @ EncodeToString (replicate 16 0)"

text \<open>
  \<^verbatim>\<open>Create\<close> writes the identifier, the creation time and the remaining
  amount into the caller's budget and then indexes it; the model returns the
  store together with the budget as written. The source's error result is
  always nil.
\<close>

definition Create ::
  "InMemoryPreAuthStore \<Rightarrow> PreAuthBudget \<Rightarrow> time \<Rightarrow> InMemoryPreAuthStore \<times> PreAuthBudget" where
  "Create s budget now =
     (let b1 = (if ID budget = [] then budget\<lparr>ID := generateBudgetID\<rparr> else budget);
          b2 = b1\<lparr>CreatedAt := now\<rparr>;
          b3 = b2\<lparr>Remaining := TotalBudget b2\<rparr>;
          s1 = s\<lparr>budgets := (budgets s)(ID b3 \<mapsto> b3)\<rparr>;
          s2 = (if AgentID b3 \<noteq> []
                then s1\<lparr>byAgent := (byAgent s1)(AgentID b3 \<mapsto> ID b3)\<rparr> else s1)
      in (s2, b3))"

definition Get :: "InMemoryPreAuthStore \<Rightarrow> string \<Rightarrow> error + PreAuthBudget" where
  "Get s bid = (case budgets s bid of
                 None \<Rightarrow> Inl (Error ''budget not found'')
               | Some budget \<Rightarrow> Inr budget)"

text \<open>
  \<^verbatim>\<open>GetByAgentID\<close> returns whatever the primary index holds under the
  indexed identifier, which is a nil budget when that entry is gone.
\<close>

definition GetByAgentID ::
  "InMemoryPreAuthStore \<Rightarrow> string \<Rightarrow> error + PreAuthBudget option" where
  "GetByAgentID s agentID = (case byAgent s agentID of
                 None \<Rightarrow> Inl (Error ''no budget for agent'')
               | Some budgetID \<Rightarrow> Inr (budgets s budgetID))"

text \<open>
  \<^verbatim>\<open>Deduct\<close> and \<^verbatim>\<open>Refund\<close> return the error (if any) and the store
  as it is after the call.
\<close>

definition Deduct ::
  "InMemoryPreAuthStore \<Rightarrow> string \<Rightarrow> int64 \<Rightarrow> error option \<times> InMemoryPreAuthStore" where
  "Deduct s bid amount =
     (case budgets s bid of
        None \<Rightarrow> (Some (Error ''budget not found''), s)
      | Some budget \<Rightarrow>
          if Remaining budget <s amount then (Some (Error ''insufficient budget''), s)
          else
            let b1 = budget\<lparr>Remaining := Remaining budget - amount\<rparr>;
                b2 = b1\<lparr>TotalSpent := TotalSpent b1 + amount\<rparr>;
                b3 = b2\<lparr>RequestCount := RequestCount b2 + 1\<rparr>
            in (None, s\<lparr>budgets := (budgets s)(bid \<mapsto> b3)\<rparr>))"


definition Delete :: "InMemoryPreAuthStore \<Rightarrow> string \<Rightarrow> InMemoryPreAuthStore" where
  "Delete s bid =
     (let s1 = (case budgets s bid of
                  None \<Rightarrow> s
                | Some budget \<Rightarrow>
                    if AgentID budget \<noteq> []
                    then s\<lparr>byAgent := (byAgent s)(AgentID budget := None)\<rparr> else s)
      in s1\<lparr>budgets := (budgets s1)(bid := None)\<rparr>)"

section \<open>Strings, numbers and encodings of the Go library\<close>

text \<open>\<^verbatim>\<open>strings.HasPrefix(s, prefix)\<close>.\<close>

definition HasPrefix :: "string \<Rightarrow> string \<Rightarrow> bool" where
  "HasPrefix s pre = (length s \<ge> length pre \<and> take (length pre) s = pre)"

definition TrimPrefix :: "string \<Rightarrow> string \<Rightarrow> string" where
  "TrimPrefix s pre = (if HasPrefix s pre then drop (length pre) s else s)"

text \<open>
  The digit loop of \<^verbatim>\<open>formatInt64\<close>: while \<^verbatim>\<open>n > 0\<close>, the digit
  \<^verbatim>\<open>'0' + n%10\<close> is put in front and \<^verbatim>\<open>n\<close> is divided by ten.
\<close>

function digits_loop :: "int \<Rightarrow> string \<Rightarrow> string" where
  "digits_loop n digits =
     (if n > 0 then digits_loop (n div 10) (char_of (48 + n mod 10) # digits) else digits)"
  by pat_completeness auto
termination
  by (relation "measure (\<lambda>(n, digits). nat n)") auto

definition formatInt64 :: "int64 \<Rightarrow> string" where
  "formatInt64 n =
     (if n <s 0 then ''0''
      else if n = 0 then ''0''
      else digits_loop (sint n) [])"

text \<open>\<^verbatim>\<open>fmt.Sprintf("%d", n)\<close> for an \<^verbatim>\<open>int64\<close> or \<^verbatim>\<open>int\<close> value.\<close>

definition Sprintf_d :: "int \<Rightarrow> string" where
  "Sprintf_d n =
     (if n = 0 then ''0''
      else if n < 0 then CHR ''-'' # digits_loop (- n) []
      else digits_loop n [])"

text \<open>\<^verbatim>\<open>base64.StdEncoding.EncodeToString\<close>: the standard alphabet, padded with \<^verbatim>\<open>=\<close>.\<close>

definition encodeStd :: string where
  "encodeStd = ''ABCDEFGHIJKLMNOPQRSTUVWXYZabcdefghijklmnopqrstuvwxyz0123456789+/''"

fun b64_groups :: "nat list \<Rightarrow> string" where
  "b64_groups (a # b # c # rest) =
     encodeStd ! (a div 4) # encodeStd ! ((a mod 4) * 16 + b div 16) #
     encodeStd ! ((b mod 16) * 4 + c div 64) # encodeStd ! (c mod 64) # b64_groups rest"
| "b64_groups [a, b] =
     [encodeStd ! (a div 4), encodeStd ! ((a mod 4) * 16 + b div 16),
      encodeStd ! ((b mod 16) * 4), CHR ''='']"
| "b64_groups [a] =
     [encodeStd ! (a div 4), encodeStd ! ((a mod 4) * 16), CHR ''='', CHR ''='']"
| "b64_groups [] = []"

definition base64_EncodeToString :: "string \<Rightarrow> string" where
  "base64_EncodeToString src = b64_groups (map of_char src)"

text \<open>
  JSON documents as the \<^verbatim>\<open>encoding/json\<close> package sees a Go value: the
  translation of each struct below follows its field tags. The byte-level
  rendering (\<^verbatim>\<open>json.Marshal\<close>), the decoders, the hash and the time
  formats belong to the Go library and are parameters of the model.
\<close>

datatype json =
  JNull | JBool bool | JNumber int | JString string | JArray "json list"
  | JObject "(string \<times> json) list"

section \<open>HTTP headers, requests and response writers (net/http)\<close>

text \<open>
  \<^verbatim>\<open>textproto.CanonicalMIMEHeaderKey\<close>: a key holding a byte that is not a
  token character is left alone; otherwise the first letter and every letter
  after a hyphen is made upper case and the others lower case.
\<close>

definition isLower :: "char \<Rightarrow> bool" where
  "isLower c = (97 \<le> (of_char c :: nat) \<and> (of_char c :: nat) \<le> 122)"

definition isUpper :: "char \<Rightarrow> bool" where
  "isUpper c = (65 \<le> (of_char c :: nat) \<and> (of_char c :: nat) \<le> 90)"

definition isDigit :: "char \<Rightarrow> bool" where
  "isDigit c = (48 \<le> (of_char c :: nat) \<and> (of_char c :: nat) \<le> 57)"

definition validHeaderFieldByte :: "char \<Rightarrow> bool" where
  "validHeaderFieldByte c =
     (isLower c \<or> isUpper c \<or> isDigit c \<or>
      c \<in> set (CHR 0x27 # CHR 0x60 # ''!#$%&*+-.^_|~''))"

fun canonical_loop :: "bool \<Rightarrow> string \<Rightarrow> string" where
  "canonical_loop upper [] = []"
| "canonical_loop upper (c # cs) =
     (let c1 = (if upper \<and> isLower c then char_of ((of_char c :: nat) - 32)
                else if \<not> upper \<and> isUpper c then char_of ((of_char c :: nat) + 32)
                else c)
      in c1 # canonical_loop (c1 = CHR ''-'') cs)"

definition CanonicalMIMEHeaderKey :: "string \<Rightarrow> string" where
  "CanonicalMIMEHeaderKey s =
     (if list_all validHeaderFieldByte s then canonical_loop True s else s)"

text \<open>
  An \<^verbatim>\<open>http.Header\<close> maps canonical keys to lists of values;
  \<^verbatim>\<open>Get\<close> reads the first value (or the empty string) and
  \<^verbatim>\<open>Set\<close> replaces the values by a single one.
\<close>

type_synonym Header = "(string \<times> string list) list"

definition Header_Get :: "Header \<Rightarrow> string \<Rightarrow> string" where
  "Header_Get h key =
     (case map_of h (CanonicalMIMEHeaderKey key) of
        None \<Rightarrow> []
      | Some [] \<Rightarrow> []
      | Some (v # vs) \<Rightarrow> v)"

fun update_entry :: "string \<Rightarrow> string list \<Rightarrow> Header \<Rightarrow> Header" where
  "update_entry k v [] = [(k, v)]"
| "update_entry k v (p # ps) =
     (if fst p = k then (k, v) # ps else p # update_entry k v ps)"

definition Header_Set :: "Header \<Rightarrow> string \<Rightarrow> string \<Rightarrow> Header" where
  "Header_Set h key val = update_entry (CanonicalMIMEHeaderKey key) [val] h"

record Request =
  Method :: string
  URL_Path :: string
  URL_RawQuery :: string
  Header :: Header

text \<open>
  An \<^verbatim>\<open>http.ResponseWriter\<close> by the contract of the interface: the header
  map, the status code once it has been written (the first
  \<^verbatim>\<open>WriteHeader\<close> wins, a \<^verbatim>\<open>Write\<close> before it implies 200) and
  the body written so far.
\<close>

record ResponseWriter =
  HeaderMap :: Header
  Code :: "int option"
  Body :: string

definition NewRecorder :: ResponseWriter where
  "NewRecorder = \<lparr>HeaderMap = [], Code = None, Body = []\<rparr>"

definition WriteHeader :: "int \<Rightarrow> ResponseWriter \<Rightarrow> ResponseWriter" where
  "WriteHeader code w = (if Code w = None then w\<lparr>Code := Some code\<rparr> else w)"

definition Write :: "string \<Rightarrow> ResponseWriter \<Rightarrow> ResponseWriter" where
  "Write b w = (let w1 = WriteHeader 200 w in w1\<lparr>Body := Body w1 @ b\<rparr>)"

definition SetHeader :: "string \<Rightarrow> string \<Rightarrow> ResponseWriter \<Rightarrow> ResponseWriter" where
  "SetHeader key val w = w\<lparr>HeaderMap := Header_Set (HeaderMap w) key val\<rparr>"

text \<open>
  A handler reaches its writer only through the interface, so a handler is what
  it calls on the writer, given the header map it finds, the request and its own
  state \<^typ>\<open>'h\<close> (whatever the downstream handler keeps beside the response).
\<close>

datatype WriterCall =
  CallSet string string | CallWriteHeader int | CallWrite string

type_synonym 'h Handler = "Header \<Rightarrow> Request \<Rightarrow> 'h \<Rightarrow> WriterCall list \<times> 'h"

fun applyCall :: "WriterCall \<Rightarrow> ResponseWriter \<Rightarrow> ResponseWriter" where
  "applyCall (CallSet k v) w = SetHeader k v w"
| "applyCall (CallWriteHeader code) w = WriteHeader code w"
| "applyCall (CallWrite b) w = Write b w"

definition ServeHTTP ::
  "'h Handler \<Rightarrow> ResponseWriter \<Rightarrow> Request \<Rightarrow> 'h \<Rightarrow> ResponseWriter \<times> 'h" where
  "ServeHTTP next w r h =
     (case next (HeaderMap w) r h of (calls, h1) \<Rightarrow> (fold applyCall calls w, h1))"

section \<open>Payment schemes and the scheme registry\<close>

type_synonym SchemeType = string
type_synonym NetworkType = string

definition SchemeExact :: SchemeType where "SchemeExact = ''exact''"
definition SchemeStripePayment :: SchemeType where "SchemeStripePayment = ''stripe-payment''"

definition NetworkEthereumMainnet :: NetworkType where "NetworkEthereumMainnet = ''eip155:1''"
definition NetworkBaseMainnet :: NetworkType where "NetworkBaseMainnet = ''eip155:8453''"
definition NetworkBaseSepolia :: NetworkType where "NetworkBaseSepolia = ''eip155:84532''"
definition NetworkOptimism :: NetworkType where "NetworkOptimism = ''eip155:10''"
definition NetworkArbitrum :: NetworkType where "NetworkArbitrum = ''eip155:42161''"
definition NetworkPolygon :: NetworkType where "NetworkPolygon = ''eip155:137''"
definition NetworkEVMWildcard :: NetworkType where "NetworkEVMWildcard = ''eip155:*''"
definition NetworkSolanaMainnet :: NetworkType where
  "NetworkSolanaMainnet = ''solana:5eykt4UsFv8P8NJdTREpY1vzqKqZKvdp''"
definition NetworkSolanaWildcard :: NetworkType where "NetworkSolanaWildcard = ''solana:*''"
definition NetworkStripe :: NetworkType where "NetworkStripe = ''stripe:live''"
definition NetworkStripeTest :: NetworkType where "NetworkStripeTest = ''stripe:test''"

record PaymentPayload =
  Scheme :: SchemeType
  Network :: NetworkType
  Payload :: string
  Resource :: string
  Timestamp :: int64
  Signature :: string
  Payer :: string
  Nonce :: string
  CardToken :: string
  PaymentIntentID :: string
  AuthCode :: string

record VerificationResult =
  Valid :: bool
  Message :: string
  Scheme :: SchemeType
  Network :: NetworkType
  Amount :: string
  Payer :: string
  PayTo :: string
  Timestamp :: int64
  AuthorizationID :: string

record PaymentRequirements =
  Scheme :: string
  Network :: string
  MaxAmountRequired :: string
  Resource :: string
  Description :: string
  MimeType :: string
  PayTo :: string
  MaxTimeoutSeconds :: int
  Asset :: string
  OutputSchema :: json
  Extra :: "(string \<times> json) list"

text \<open>
  A \<^verbatim>\<open>PaymentScheme\<close> is an interface; a value of it is the record of its
  methods. \<^verbatim>\<open>Verify\<close> returns a result pointer (possibly nil) and an
  error (possibly nil).
\<close>

record PaymentScheme =
  Type :: SchemeType
  SupportedNetworks :: "NetworkType list"
  Verify :: "PaymentPayload \<Rightarrow> PaymentRequirements \<Rightarrow> VerificationResult option \<times> error option"

text \<open>
  The registry's map from scheme type to scheme, kept as an association list
  with one entry per key so that it can be ranged over.
\<close>

record SchemeRegistry =
  schemes :: "(SchemeType \<times> PaymentScheme) list"

definition NewSchemeRegistry :: SchemeRegistry where
  "NewSchemeRegistry = \<lparr>schemes = []\<rparr>"

fun assign :: "SchemeType \<Rightarrow> PaymentScheme \<Rightarrow> (SchemeType \<times> PaymentScheme) list
    \<Rightarrow> (SchemeType \<times> PaymentScheme) list" where
  "assign k v [] = [(k, v)]"
| "assign k v (p # ps) = (if fst p = k then (k, v) # ps else p # assign k v ps)"

definition Register :: "SchemeRegistry \<Rightarrow> PaymentScheme \<Rightarrow> SchemeRegistry" where
  "Register r scheme = r\<lparr>schemes := assign (Type scheme) scheme (schemes r)\<rparr>"

definition Registry_Get :: "SchemeRegistry \<Rightarrow> SchemeType \<Rightarrow> PaymentScheme option" where
  "Registry_Get r schemeType = map_of (schemes r) schemeType"

definition isWildcardMatch :: "NetworkType \<Rightarrow> NetworkType \<Rightarrow> bool" where
  "isWildcardMatch pattern network =
     (if length pattern < 2 \<or> pattern ! (length pattern - 1) \<noteq> CHR ''*'' then False
      else let pre = take (length pattern - 1) pattern
           in length network > length pre \<and> take (length pre) network = pre)"

text \<open>The two nested loops of \<^verbatim>\<open>SupportsNetwork\<close>, each returning at the first match.\<close>

fun networks_loop :: "NetworkType list \<Rightarrow> NetworkType \<Rightarrow> bool" where
  "networks_loop [] network = False"
| "networks_loop (n # ns) network =
     (if n = network \<or> isWildcardMatch n network then True else networks_loop ns network)"

fun schemes_loop :: "(SchemeType \<times> PaymentScheme) list \<Rightarrow> NetworkType \<Rightarrow> bool" where
  "schemes_loop [] network = False"
| "schemes_loop (p # ps) network =
     (if networks_loop (SupportedNetworks (snd p)) network then True
      else schemes_loop ps network)"

definition SupportsNetwork :: "SchemeRegistry \<Rightarrow> NetworkType \<Rightarrow> bool" where
  "SupportsNetwork r network = schemes_loop (schemes r) network"

definition ExactEVMScheme :: PaymentScheme where
  "ExactEVMScheme =
     \<lparr>Type = SchemeExact,
      SupportedNetworks =
        [NetworkEthereumMainnet, NetworkBaseMainnet, NetworkBaseSepolia, NetworkOptimism,
         NetworkArbitrum, NetworkPolygon, NetworkEVMWildcard],
      Verify = (\<lambda>payload requirements.
        (Some \<lparr>Valid = True, Message = ''EVM verification delegated to facilitator'',
               VerificationResult.Scheme = SchemeExact,
               VerificationResult.Network = PaymentPayload.Network payload,
               Amount = [], VerificationResult.Payer = [], VerificationResult.PayTo = [],
               VerificationResult.Timestamp = 0, AuthorizationID = []\<rparr>, None))\<rparr>"

definition StripeScheme :: "bool \<Rightarrow> PaymentScheme" where
  "StripeScheme sandbox =
     \<lparr>Type = SchemeStripePayment,
      SupportedNetworks = (if sandbox then [NetworkStripeTest] else [NetworkStripe]),
      Verify = (\<lambda>payload requirements.
        (None, Some (Error ''use StripeRail for Stripe payment verification'')))\<rparr>"

section \<open>Go library functions taken as parameters\<close>

record Stdlib =
  json_Marshal :: "json \<Rightarrow> string"
  json_Unmarshal :: "string \<Rightarrow> error + PaymentPayload"
  base64_Std_DecodeString :: "string \<Rightarrow> error + string"
  base64_URL_DecodeString :: "string \<Rightarrow> error + string"
  Query_Get :: "string \<Rightarrow> string \<Rightarrow> string"
  Format_RFC3339 :: "time \<Rightarrow> string"
  Time_String :: "time \<Rightarrow> string"
  Duration_String :: "int \<Rightarrow> string"
  sha256_Sum :: "string \<Rightarrow> 8 word list"

text \<open>\<^verbatim>\<open>json.NewEncoder(w).Encode(v)\<close> writes the rendering and a newline.\<close>

definition Encode :: "Stdlib \<Rightarrow> json \<Rightarrow> ResponseWriter \<Rightarrow> ResponseWriter" where
  "Encode std v w = Write (json_Marshal std v @ [CHR 0x0A]) w"

section \<open>The payment middleware\<close>

definition X402Version :: int where "X402Version = 1"

record Config =
  PayTo :: string
  PaymentEndpoint :: string
  AcceptedMethods :: "string list"
  PricePerRequest :: int64
  ExemptPaths :: "string list"
  Currency :: string
  Network :: string
  Scheme :: string
  Asset :: string
  Description :: string
  MaxTimeoutSeconds :: int
  PaymentVerifier :: "(string \<Rightarrow> bool \<times> error option) option"

text \<open>
  The fields \<^verbatim>\<open>X402Version\<close> and \<^verbatim>\<open>Error\<close> of the response struct carry
  a suffix here, their names being taken by the constant and by the error type.
\<close>

record PaymentRequiredResponse =
  X402Version_f :: int
  Accepts :: "PaymentRequirements list"
  Error_f :: string

text \<open>The JSON documents of the two response structs, field by field as tagged.\<close>

definition PaymentRequirements_json :: "PaymentRequirements \<Rightarrow> json" where
  "PaymentRequirements_json q =
     JObject
       ([(''scheme'', JString (PaymentRequirements.Scheme q)),
         (''network'', JString (PaymentRequirements.Network q)),
         (''maxAmountRequired'', JString (MaxAmountRequired q)),
         (''resource'', JString (PaymentRequirements.Resource q)),
         (''description'', JString (PaymentRequirements.Description q))]
        @ (if MimeType q = [] then [] else [(''mimeType'', JString (MimeType q))])
        @ [(''payTo'', JString (PaymentRequirements.PayTo q)),
           (''maxTimeoutSeconds'', JNumber (PaymentRequirements.MaxTimeoutSeconds q))]
        @ (if PaymentRequirements.Asset q = [] then []
           else [(''asset'', JString (PaymentRequirements.Asset q))])
        @ [(''outputSchema'', OutputSchema q)]
        @ (if Extra q = [] then [] else [(''extra'', JObject (Extra q))]))"

definition PaymentRequiredResponse_json :: "PaymentRequiredResponse \<Rightarrow> json" where
  "PaymentRequiredResponse_json p =
     JObject
       ([(''x402Version'', JNumber (X402Version_f p)),
         (''accepts'', JArray (map PaymentRequirements_json (Accepts p)))]
        @ (if Error_f p = [] then [] else [(''error'', JString (Error_f p))]))"

fun isExemptPath :: "string \<Rightarrow> string list \<Rightarrow> bool" where
  "isExemptPath path [] = False"
| "isExemptPath path (exemptPath # exemptPaths) =
     (if HasPrefix path exemptPath then True else isExemptPath path exemptPaths)"

fun methods_loop :: "string \<Rightarrow> string list \<Rightarrow> string option" where
  "methods_loop authHeader [] = None"
| "methods_loop authHeader (method # methods) =
     (let pre = method @ '' ''
      in if HasPrefix authHeader pre then Some (TrimPrefix authHeader pre)
         else methods_loop authHeader methods)"

definition extractPaymentToken :: "Stdlib \<Rightarrow> Request \<Rightarrow> string list \<Rightarrow> string" where
  "extractPaymentToken std r acceptedMethods =
     (let paymentSig = Header_Get (Header r) ''PAYMENT-SIGNATURE'' in
      if paymentSig \<noteq> [] then paymentSig else
      let xPayment = Header_Get (Header r) ''X-PAYMENT'' in
      if xPayment \<noteq> [] then xPayment else
      let authHeader = Header_Get (Header r) ''Authorization'' in
      case (if authHeader \<noteq> [] then methods_loop authHeader acceptedMethods else None) of
        Some token \<Rightarrow> token
      | None \<Rightarrow>
          let paymentToken = Header_Get (Header r) ''X-Payment-Token'' in
          if paymentToken \<noteq> [] then paymentToken
          else Query_Get std (URL_RawQuery r) ''payment_token'')"

definition verifyPaymentToken :: "string \<Rightarrow> Config \<Rightarrow> bool \<times> error option" where
  "verifyPaymentToken token config =
     (case PaymentVerifier config of
        Some verifier \<Rightarrow> verifier token
      | None \<Rightarrow> if HasPrefix token ''valid_'' then (True, None) else (False, None))"

definition resource_of :: "Request \<Rightarrow> string" where
  "resource_of r =
     (if URL_RawQuery r \<noteq> [] then URL_Path r @ ''?'' @ URL_RawQuery r else URL_Path r)"

definition sendPaymentRequired ::
  "Stdlib \<Rightarrow> ResponseWriter \<Rightarrow> Config \<Rightarrow> Request \<Rightarrow> ResponseWriter" where
  "sendPaymentRequired std w config r =
     (let resource = resource_of r;
          scheme = (if Config.Scheme config = [] then ''exact'' else Config.Scheme config);
          network = (if Config.Network config = [] then ''base-sepolia''
                     else Config.Network config);
          maxTimeout = (if Config.MaxTimeoutSeconds config = 0 then 60
                        else Config.MaxTimeoutSeconds config);
          description =
            (if Config.Description config = []
             then ''Payment of '' @ Sprintf_d (sint (PricePerRequest config)) @ '' '' @
                  Config.Currency config @ '' required''
             else Config.Description config);
          requirements =
            \<lparr>PaymentRequirements.Scheme = scheme, PaymentRequirements.Network = network,
             MaxAmountRequired = Sprintf_d (sint (PricePerRequest config)),
             PaymentRequirements.Resource = resource,
             PaymentRequirements.Description = description, MimeType = [],
             PaymentRequirements.PayTo = Config.PayTo config,
             PaymentRequirements.MaxTimeoutSeconds = maxTimeout,
             PaymentRequirements.Asset = Config.Asset config,
             OutputSchema = JNull, Extra = []\<rparr>;
          response =
            \<lparr>X402Version_f = X402Version, Accepts = [requirements],
             Error_f = ''X-PAYMENT header is required''\<rparr>;
          responseJSON = json_Marshal std (PaymentRequiredResponse_json response);
          paymentRequiredHeader = base64_EncodeToString responseJSON;
          w1 = SetHeader ''Content-Type'' ''application/json'' w;
          w2 = SetHeader ''PAYMENT-REQUIRED'' paymentRequiredHeader w1;
          w3 = WriteHeader 402 w2
      in Encode std (PaymentRequiredResponse_json response) w3)"

text \<open>Both constructors start by filling in the default currency.\<close>

definition defaultCurrency :: "'a Config_scheme \<Rightarrow> 'a Config_scheme" where
  "defaultCurrency config =
     (if Config.Currency config = [] then config\<lparr>Config.Currency := ''USD''\<rparr> else config)"

text \<open>
  \<^verbatim>\<open>Middleware\<close>: the constructor fills in the default currency, the
  returned handler serves one request. \<^verbatim>\<open>now\<close> is the reading of
  \<^verbatim>\<open>time.Now()\<close> on the paid path.
\<close>

definition Middleware ::
  "Stdlib \<Rightarrow> 'h Handler \<Rightarrow> Config \<Rightarrow> time \<Rightarrow> ResponseWriter \<Rightarrow> Request \<Rightarrow> 'h
    \<Rightarrow> ResponseWriter \<times> 'h" where
  "Middleware std next config0 now w r h =
     (let config = defaultCurrency config0
      in if isExemptPath (URL_Path r) (ExemptPaths config) then ServeHTTP next w r h
         else
           let token = extractPaymentToken std r (AcceptedMethods config)
           in if token = [] then (sendPaymentRequired std w config r, h)
              else
                case verifyPaymentToken token config of
                  (valid, err) \<Rightarrow>
                    if err \<noteq> None \<or> \<not> valid then (sendPaymentRequired std w config r, h)
                    else
                      let w1 = SetHeader ''X-Payment-Verified'' ''true'' w;
                          w2 = SetHeader ''X-Payment-Timestamp'' (Format_RFC3339 std now) w1
                      in ServeHTTP next w2 r h)"

section \<open>The multi-scheme middleware\<close>

text \<open>
  \<^verbatim>\<open>MultiSchemeConfig\<close> embeds \<^verbatim>\<open>Config\<close>; its field
  \<^verbatim>\<open>SchemeRegistry\<close> (nil when unset) is the field \<open>Registry\<close> here, the
  name being taken by the registry type.
\<close>

record MultiSchemeConfig = Config +
  AcceptedSchemes :: "SchemeType list"
  AcceptedNetworks :: "NetworkType list"
  PaymentAddresses :: "NetworkType \<rightharpoonup> string"
  FacilitatorURLs :: "NetworkType \<rightharpoonup> string"
  Registry :: "SchemeRegistry option"

definition BuildMultiSchemeRequirements ::
  "MultiSchemeConfig \<Rightarrow> string \<Rightarrow> PaymentRequirements list" where
  "BuildMultiSchemeRequirements c resource =
     (let schemes = (if AcceptedSchemes c = [] then [SchemeExact] else AcceptedSchemes c);
          networks = (if AcceptedNetworks c = [] \<and> Config.Network c \<noteq> []
                      then [Config.Network c] else AcceptedNetworks c);
          maxTimeout = (if Config.MaxTimeoutSeconds c = 0 then 60
                        else Config.MaxTimeoutSeconds c);
          description =
            (if Config.Description c = []
             then ''Payment of '' @ Sprintf_d (sint (PricePerRequest c)) @ '' '' @
                  Config.Currency c @ '' required''
             else Config.Description c)
      in concat (map (\<lambda>scheme. map (\<lambda>network.
           \<lparr>PaymentRequirements.Scheme = scheme, PaymentRequirements.Network = network,
            MaxAmountRequired = Sprintf_d (sint (PricePerRequest c)),
            PaymentRequirements.Resource = resource,
            PaymentRequirements.Description = description, MimeType = [],
            PaymentRequirements.PayTo =
              (case PaymentAddresses c network of Some addr \<Rightarrow> addr | None \<Rightarrow> Config.PayTo c),
            PaymentRequirements.MaxTimeoutSeconds = maxTimeout,
            PaymentRequirements.Asset = Config.Asset c,
            OutputSchema = JNull,
            Extra = (case FacilitatorURLs c network of
                       Some facilitatorURL \<Rightarrow> [(''facilitatorUrl'', JString facilitatorURL)]
                     | None \<Rightarrow> [])\<rparr>) networks) schemes))"

definition multiSchemeResponse :: "MultiSchemeConfig \<Rightarrow> Request \<Rightarrow> PaymentRequiredResponse" where
  "multiSchemeResponse config r =
     (let resource = resource_of r;
          requirements0 = BuildMultiSchemeRequirements config resource;
          requirements =
            (if length requirements0 = 0
             then [\<lparr>PaymentRequirements.Scheme = ''exact'',
                    PaymentRequirements.Network = ''base-sepolia'',
                    MaxAmountRequired = Sprintf_d (sint (PricePerRequest config)),
                    PaymentRequirements.Resource = resource,
                    PaymentRequirements.Description = Config.Description config,
                    MimeType = [],
                    PaymentRequirements.PayTo = Config.PayTo config,
                    PaymentRequirements.MaxTimeoutSeconds = 60,
                    PaymentRequirements.Asset = Config.Asset config,
                    OutputSchema = JNull, Extra = []\<rparr>]
             else requirements0)
      in \<lparr>X402Version_f = X402Version, Accepts = requirements,
          Error_f = ''Payment required - select a supported scheme and network''\<rparr>)"

definition sendMultiSchemePaymentRequired ::
  "Stdlib \<Rightarrow> ResponseWriter \<Rightarrow> MultiSchemeConfig \<Rightarrow> Request \<Rightarrow> ResponseWriter" where
  "sendMultiSchemePaymentRequired std w config r =
     (let response = multiSchemeResponse config r;
          responseJSON = json_Marshal std (PaymentRequiredResponse_json response);
          paymentRequiredHeader = base64_EncodeToString responseJSON;
          w1 = SetHeader ''Content-Type'' ''application/json'' w;
          w2 = SetHeader ''PAYMENT-REQUIRED'' paymentRequiredHeader w1;
          w3 = WriteHeader 402 w2
      in Encode std (PaymentRequiredResponse_json response) w3)"

definition parsePaymentPayload :: "Stdlib \<Rightarrow> string \<Rightarrow> error + PaymentPayload" where
  "parsePaymentPayload std token =
     (let decoded =
            (case base64_Std_DecodeString std token of
               Inr d \<Rightarrow> d
             | Inl err \<Rightarrow>
                 (case base64_URL_DecodeString std token of
                    Inr d \<Rightarrow> d
                  | Inl err2 \<Rightarrow> token))
      in case json_Unmarshal std decoded of
           Inl err \<Rightarrow> Inl (Error (''invalid payment payload: '' @ message_of err))
         | Inr payload \<Rightarrow> Inr payload)"

text \<open>The requirements that the handler builds for the verifier from the payload.\<close>

definition verificationRequirements ::
  "MultiSchemeConfig \<Rightarrow> Request \<Rightarrow> PaymentPayload \<Rightarrow> PaymentRequirements" where
  "verificationRequirements config r payload =
     \<lparr>PaymentRequirements.Scheme = PaymentPayload.Scheme payload,
      PaymentRequirements.Network = PaymentPayload.Network payload,
      MaxAmountRequired = Sprintf_d (sint (PricePerRequest config)),
      PaymentRequirements.Resource = resource_of r,
      PaymentRequirements.Description = [], MimeType = [],
      PaymentRequirements.PayTo = Config.PayTo config,
      PaymentRequirements.MaxTimeoutSeconds = Config.MaxTimeoutSeconds config,
      PaymentRequirements.Asset = Config.Asset config,
      OutputSchema = JNull, Extra = []\<rparr>"

text \<open>The configured registry, or the package's default one when none is configured.\<close>

definition registryOf :: "MultiSchemeConfig \<Rightarrow> SchemeRegistry \<Rightarrow> SchemeRegistry" where
  "registryOf config DefaultRegistry =
     (case Registry config of None \<Rightarrow> DefaultRegistry | Some reg \<Rightarrow> reg)"

text \<open>
  \<^verbatim>\<open>MultiSchemeMiddleware\<close>; \<^verbatim>\<open>DefaultRegistry\<close> is the package's global
  registry, an argument here. A verifier that returns neither a result nor an
  error makes the handler panic when it reads \<^verbatim>\<open>result.Valid\<close>.
\<close>

definition MultiSchemeMiddleware ::
  "Stdlib \<Rightarrow> 'h Handler \<Rightarrow> MultiSchemeConfig \<Rightarrow> SchemeRegistry \<Rightarrow> ResponseWriter \<Rightarrow> Request
    \<Rightarrow> 'h \<Rightarrow> error + ResponseWriter \<times> 'h" where
  "MultiSchemeMiddleware std next config0 DefaultRegistry w r h =
     (let config = defaultCurrency config0;
          registry = registryOf config DefaultRegistry
      in if isExemptPath (URL_Path r) (ExemptPaths config) then Inr (ServeHTTP next w r h)
         else
           let token = extractPaymentToken std r (AcceptedMethods config)
           in if token = [] then Inr (sendMultiSchemePaymentRequired std w config r, h)
              else
                case parsePaymentPayload std token of
                  Inl err \<Rightarrow> Inr (sendMultiSchemePaymentRequired std w config r, h)
                | Inr payload \<Rightarrow>
                    (case Registry_Get registry (PaymentPayload.Scheme payload) of
                       None \<Rightarrow> Inr (sendMultiSchemePaymentRequired std w config r, h)
                     | Some scheme \<Rightarrow>
                         let requirements = verificationRequirements config r payload
                         in (case Verify scheme payload requirements of
                              (result, Some err) \<Rightarrow>
                                Inr (sendMultiSchemePaymentRequired std w config r, h)
                            | (None, None) \<Rightarrow>
                                Inl (Panic (''runtime error: invalid memory address or '' @
                                            ''nil pointer dereference''))
                            | (Some result, None) \<Rightarrow>
                                if \<not> Valid result
                                then Inr (sendMultiSchemePaymentRequired std w config r, h)
                                else
                                  let w1 = SetHeader ''X-Payment-Verified'' ''true'' w;
                                      w2 = SetHeader ''X-Payment-Scheme''
                                             (PaymentPayload.Scheme payload) w1;
                                      w3 = SetHeader ''X-Payment-Network''
                                             (PaymentPayload.Network payload) w2;
                                      w4 = SetHeader ''X-Payment-Timestamp''
                                             (Sprintf_d (sint (PaymentPayload.Timestamp payload)))
                                             w3
                                  in Inr (ServeHTTP next w4 r h))))"

section \<open>Sessions (session.go)\<close>

definition SessionTypeTime :: string where "SessionTypeTime = ''time''"
definition SessionTypeRequests :: string where "SessionTypeRequests = ''requests''"
definition SessionTypeUnlimited :: string where "SessionTypeUnlimited = ''unlimited''"

record Session =
  ID :: string
  PayerAddress :: string
  CreatedAt :: time
  ExpiresAt :: time
  SessionType :: string
  MaxRequests :: int64
  UsedRequests :: int64
  AmountPaid :: int64
  Currency :: string
  AllowedEndpoints :: "string list"
  Metadata :: "(string \<times> string) list"
  Active :: bool

record InMemorySessionStore =
  sessions :: "string \<rightharpoonup> Session"

definition NewInMemorySessionStore :: InMemorySessionStore where
  "NewInMemorySessionStore = \<lparr>sessions = Map.empty\<rparr>"

definition GetSession :: "InMemorySessionStore \<Rightarrow> string \<Rightarrow> error + Session" where
  "GetSession s sid = (case sessions s sid of
                         None \<Rightarrow> Inl (Error ''session not found'')
                       | Some session \<Rightarrow> Inr session)"

definition UpdateSession ::
  "InMemorySessionStore \<Rightarrow> Session \<Rightarrow> error option \<times> InMemorySessionStore" where
  "UpdateSession s session =
     (case sessions s (Session.ID session) of
        None \<Rightarrow> (Some (Error ''session not found''), s)
      | Some old \<Rightarrow> (None, s\<lparr>sessions := (sessions s)(Session.ID session \<mapsto> session)\<rparr>))"

definition DeleteSession :: "InMemorySessionStore \<Rightarrow> string \<Rightarrow> InMemorySessionStore" where
  "DeleteSession s sid = s\<lparr>sessions := (sessions s)(sid := None)\<rparr>"

definition matchesPattern :: "string \<Rightarrow> string \<Rightarrow> bool" where
  "matchesPattern path pattern =
     (if pattern = ''*'' \<or> pattern = ''/*'' then True
      else if length pattern > 2 \<and> drop (length pattern - 2) pattern = ''/*''
      then let pre = take (length pattern - 2) pattern
           in length path \<ge> length pre \<and> take (length pre) path = pre
      else path = pattern)"

fun endpoints_loop :: "string \<Rightarrow> string list \<Rightarrow> bool" where
  "endpoints_loop path [] = False"
| "endpoints_loop path (endpoint # endpoints) =
     (if path = endpoint \<or> matchesPattern path endpoint then True
      else endpoints_loop path endpoints)"

text \<open>\<^verbatim>\<open>validateSession\<close>; \<^verbatim>\<open>now\<close> is its reading of \<^verbatim>\<open>time.Now()\<close>.\<close>

definition validateSession :: "Session \<Rightarrow> string \<Rightarrow> time \<Rightarrow> error option" where
  "validateSession session path now =
     (if \<not> Active session then Some (Error ''session is inactive'')
      else if now > Session.ExpiresAt session then Some (Error ''session has expired'')
      else if SessionType session = SessionTypeRequests \<and>
              MaxRequests session \<le>s UsedRequests session
      then Some (Error ''session request limit exceeded'')
      else if length (AllowedEndpoints session) > 0 \<and>
              \<not> endpoints_loop path (AllowedEndpoints session)
      then Some (Error ''endpoint not allowed for this session'')
      else None)"

text \<open>
  A \<^verbatim>\<open>time.Duration\<close> is an \<^verbatim>\<open>int64\<close> count of nanoseconds.
  \<^verbatim>\<open>time.Until(t)\<close> is \<^verbatim>\<open>t.Sub(time.Now())\<close>, which stops at the
  smallest and the largest duration; \<^verbatim>\<open>d.Round(m)\<close> rounds to the nearest
  multiple of \<^verbatim>\<open>m\<close>, halfway values away from zero, and also stops at the
  two ends.
\<close>

definition Second :: int where "Second = 1000000000"
definition minDuration :: int where "minDuration = - (2 ^ 63)"
definition maxDuration :: int where "maxDuration = 2 ^ 63 - 1"

definition Until :: "time \<Rightarrow> time \<Rightarrow> int" where
  "Until t now =
     (if t - now < minDuration then minDuration
      else if maxDuration < t - now then maxDuration
      else t - now)"

definition Round :: "int \<Rightarrow> int \<Rightarrow> int" where
  "Round d m =
     (if m \<le> 0 then d
      else if d < 0
      then (let r = (- d) mod m
            in if 2 * r < m then d + r
               else if minDuration \<le> d - m + r then d - m + r
               else minDuration)
      else (let r = d mod m
            in if 2 * r < m then d - r
               else if d + m - r \<le> maxDuration then d + m - r
               else maxDuration))"

definition formatSessionRemaining :: "Stdlib \<Rightarrow> Session \<Rightarrow> time \<Rightarrow> string" where
  "formatSessionRemaining std session now =
     (if SessionType session = SessionTypeRequests
      then formatInt64 (MaxRequests session - UsedRequests session) @ '' requests''
      else if SessionType session = SessionTypeTime
      then Duration_String std (Round (Until (Session.ExpiresAt session) now) Second)
      else ''unlimited'')"

definition sendSessionError ::
  "Stdlib \<Rightarrow> ResponseWriter \<Rightarrow> string \<Rightarrow> string \<Rightarrow> ResponseWriter" where
  "sendSessionError std w code message =
     (let w1 = SetHeader ''Content-Type'' ''application/json'' w;
          w2 = WriteHeader 401 w1
      in Encode std (JObject [(''error'', JString code), (''message'', JString message)]) w2)"

record SessionConfig =
  Store :: InMemorySessionStore
  DefaultDuration :: int
  DefaultMaxRequests :: int64
  PricePerHour :: int64
  PricePerRequest :: int64
  Currency :: string
  AllowedEndpoints :: "string list"

text \<open>
  \<^verbatim>\<open>SessionMiddleware\<close> serves one request and returns the writer, the
  downstream handler's state and the session store as they are afterwards.
  \<^verbatim>\<open>tValidate\<close> and \<^verbatim>\<open>tRemaining\<close> are the two clock readings (in
  \<^verbatim>\<open>validateSession\<close> and in \<^verbatim>\<open>time.Until\<close>). The usage counter
  is incremented in place, through the pointer that the store handed out, before
  \<^verbatim>\<open>UpdateSession\<close> stores the session under its identifier.
\<close>

definition SessionMiddleware ::
  "Stdlib \<Rightarrow> 'h Handler \<Rightarrow> SessionConfig \<Rightarrow> time \<Rightarrow> time \<Rightarrow> ResponseWriter \<Rightarrow> Request \<Rightarrow> 'h
    \<Rightarrow> ResponseWriter \<times> 'h \<times> InMemorySessionStore" where
  "SessionMiddleware std next config tValidate tRemaining w r h =
     (let sessionID = Header_Get (Header r) ''X-Session-ID''
      in if sessionID = []
         then (case ServeHTTP next w r h of (w1, h1) \<Rightarrow> (w1, h1, Store config))
         else
           case GetSession (Store config) sessionID of
             Inl err \<Rightarrow>
               (sendSessionError std w ''invalid_session'' ''Session not found or invalid'',
                h, Store config)
           | Inr session \<Rightarrow>
               (case validateSession session (URL_Path r) tValidate of
                  Some (Error msg) \<Rightarrow>
                    (sendSessionError std w ''session_error'' msg, h, Store config)
                | Some (Panic msg) \<Rightarrow>
                    (sendSessionError std w ''session_error'' msg, h, Store config)
                | None \<Rightarrow>
                    let (session1, store1) =
                          (if SessionType session = SessionTypeRequests
                           then let s1 = session\<lparr>UsedRequests := UsedRequests session + 1\<rparr>;
                                    inPlace = (Store config)
                                      \<lparr>sessions := (sessions (Store config))(sessionID \<mapsto> s1)\<rparr>
                                in (s1, snd (UpdateSession inPlace s1))
                           else (session, Store config));
                        w1 = SetHeader ''X-Session-Remaining''
                               (formatSessionRemaining std session1 tRemaining) w;
                        w2 = SetHeader ''X-Session-Expires''
                               (Format_RFC3339 std (Session.ExpiresAt session1)) w1
                    in case ServeHTTP next w2 r h of (w3, h1) \<Rightarrow> (w3, h1, store1)))"

section \<open>Usage metering\<close>

record UsageMetric =
  Timestamp :: time
  Endpoint :: string
  Method :: string
  PayerID :: string
  AmountPaid :: int64
  Currency :: string
  ResponseCode :: int
  Latency :: int64
  PaymentType :: string
  SessionID :: string
  UserAgent :: string
  IsAIAgent :: bool

text \<open>The slice of metrics is a list, oldest first; \<^verbatim>\<open>maxSize\<close> is a Go \<^verbatim>\<open>int\<close>.\<close>

record InMemoryMeteringStore =
  metrics :: "UsageMetric list"
  maxSize :: int
  currency :: string

definition NewInMemoryMeteringStore :: "int \<Rightarrow> string \<Rightarrow> InMemoryMeteringStore" where
  "NewInMemoryMeteringStore maxSize0 currency0 =
     (let maxSize1 = (if maxSize0 \<le> 0 then 100000 else maxSize0);
          currency1 = (if currency0 = [] then ''USDC'' else currency0)
      in \<lparr>metrics = [], maxSize = maxSize1, currency = currency1\<rparr>)"

text \<open>
  \<^verbatim>\<open>RecordRequest\<close>: at capacity the slice is re-sliced from index 1, which
  panics on an empty slice; then the metric is appended.
\<close>

definition RecordRequest ::
  "InMemoryMeteringStore \<Rightarrow> UsageMetric \<Rightarrow> error + InMemoryMeteringStore" where
  "RecordRequest s metric =
     (if int (length (metrics s)) \<ge> maxSize s
      then (case metrics s of
              [] \<Rightarrow> Inl (Panic ''runtime error: slice bounds out of range [1:0]'')
            | oldest # rest \<Rightarrow> Inr (s\<lparr>metrics := rest @ [metric]\<rparr>))
      else Inr (s\<lparr>metrics := metrics s @ [metric]\<rparr>))"

text \<open>A run of \<^verbatim>\<open>RecordRequest\<close> calls, one per metric, in order.\<close>

fun RecordRequests ::
  "InMemoryMeteringStore \<Rightarrow> UsageMetric list \<Rightarrow> error + InMemoryMeteringStore" where
  "RecordRequests s [] = Inr s"
| "RecordRequests s (m # ms) =
     (case RecordRequest s m of Inl e \<Rightarrow> Inl e | Inr s1 \<Rightarrow> RecordRequests s1 ms)"

section \<open>Idempotency records (middleware.go)\<close>

record IdempotencyRecord =
  Key :: string
  StatusCode :: int
  Headers :: "(string \<times> string) list"
  Body :: string
  CreatedAt :: time
  ExpiresAt :: time

record InMemoryIdempotencyStore =
  records :: "string \<rightharpoonup> IdempotencyRecord"

definition NewInMemoryIdempotencyStore :: InMemoryIdempotencyStore where
  "NewInMemoryIdempotencyStore = \<lparr>records = Map.empty\<rparr>"

definition Hour :: int where "Hour = 3600000000000"

text \<open>
  \<^verbatim>\<open>Get\<close> of the idempotency store; its error result is always nil, so the
  model returns the record or nothing. \<^verbatim>\<open>now\<close> is \<^verbatim>\<open>time.Now()\<close> and
  \<^verbatim>\<open>now.After(e)\<close> is \<^verbatim>\<open>now > e\<close>.
\<close>

definition Idempotency_Get ::
  "InMemoryIdempotencyStore \<Rightarrow> string \<Rightarrow> time \<Rightarrow> IdempotencyRecord option" where
  "Idempotency_Get s key now =
     (case records s key of
        None \<Rightarrow> None
      | Some record \<Rightarrow>
          if now > IdempotencyRecord.ExpiresAt record then None else Some record)"

definition Idempotency_Set ::
  "InMemoryIdempotencyStore \<Rightarrow> string \<Rightarrow> IdempotencyRecord \<Rightarrow> time \<Rightarrow> time
    \<Rightarrow> InMemoryIdempotencyStore" where
  "Idempotency_Set s key record tCreated tDefault =
     (let r1 = record\<lparr>Key := key\<rparr>;
          r2 = r1\<lparr>IdempotencyRecord.CreatedAt := tCreated\<rparr>;
          r3 = (if IdempotencyRecord.ExpiresAt r2 = 0
                then r2\<lparr>IdempotencyRecord.ExpiresAt := tDefault + 24 * Hour\<rparr> else r2)
      in s\<lparr>records := (records s)(key \<mapsto> r3)\<rparr>)"

definition Idempotency_Delete ::
  "InMemoryIdempotencyStore \<Rightarrow> string \<Rightarrow> InMemoryIdempotencyStore" where
  "Idempotency_Delete s key = s\<lparr>records := (records s)(key := None)\<rparr>"

section \<open>The AI-first middleware (middleware.go)\<close>

record APIEndpoint =
  Path :: string
  Method :: string
  Name :: string
  Description :: string
  Cost :: int64
  Currency :: string
  CostUnit :: string

record PaymentAction =
  Required :: bool
  Amount :: int64
  Currency :: string
  PayTo :: string
  Network :: string
  Asset :: string
  Endpoint :: string
  ExpiresAt :: int64
  PreAuthAvailable :: bool
  PreAuthEndpoint :: string
  PreAuthMinBudget :: int64

record AIError =
  Code :: string
  Message :: string
  Retryable :: bool
  RetryAfter :: int
  Action :: string
  Details :: "(string \<times> string) list"
  PaymentInfo :: "PaymentAction option"

definition ErrCodePaymentRequired :: string where "ErrCodePaymentRequired = ''PAYMENT_REQUIRED''"
definition ErrCodeInsufficientBudget :: string where
  "ErrCodeInsufficientBudget = ''INSUFFICIENT_BUDGET''"
definition ErrCodeRateLimited :: string where "ErrCodeRateLimited = ''RATE_LIMITED''"
definition ErrCodeInvalidRequest :: string where "ErrCodeInvalidRequest = ''INVALID_REQUEST''"
definition ErrCodeServerError :: string where "ErrCodeServerError = ''SERVER_ERROR''"
definition ErrCodeNotFound :: string where "ErrCodeNotFound = ''NOT_FOUND''"

record AIFirstConfig =
  Endpoints :: "APIEndpoint list"
  PayTo :: string
  Network :: string
  Currency :: string
  Asset :: string
  PreAuthStore :: "InMemoryPreAuthStore option"
  IdempotencyStore :: "InMemoryIdempotencyStore option"
  EnablePreAuth :: bool
  EnableIdempotency :: bool
  IdempotencyTTL :: int
  DefaultCost :: int64

text \<open>The readings of \<^verbatim>\<open>time.Now()\<close> that one request can make, by call site.\<close>

record Readings =
  atStart :: time
  atRequestID :: time
  atGet :: time
  atErrorStamp :: time
  atSince :: time
  atExpiry :: time
  atSetCreated :: time
  atSetDefault :: time

record aiResponseRecorder =
  ResponseWriter_f :: ResponseWriter
  statusCode :: int
  body :: string

fun recorderCall :: "WriterCall \<Rightarrow> aiResponseRecorder \<Rightarrow> aiResponseRecorder" where
  "recorderCall (CallSet k v) rc = rc\<lparr>ResponseWriter_f := SetHeader k v (ResponseWriter_f rc)\<rparr>"
| "recorderCall (CallWriteHeader code) rc =
     rc\<lparr>statusCode := code, ResponseWriter_f := WriteHeader code (ResponseWriter_f rc)\<rparr>"
| "recorderCall (CallWrite b) rc =
     rc\<lparr>body := body rc @ b, ResponseWriter_f := Write b (ResponseWriter_f rc)\<rparr>"

definition ServeRecorded ::
  "'h Handler \<Rightarrow> aiResponseRecorder \<Rightarrow> Request \<Rightarrow> 'h \<Rightarrow> aiResponseRecorder \<times> 'h" where
  "ServeRecorded next rc r h =
     (case next (HeaderMap (ResponseWriter_f rc)) r h of
        (calls, h1) \<Rightarrow> (fold recorderCall calls rc, h1))"

definition generateRequestID :: "Stdlib \<Rightarrow> Request \<Rightarrow> time \<Rightarrow> string" where
  "generateRequestID std r now =
     ''req_'' @ take 16 (EncodeToString (sha256_Sum std (Time_String std now @ URL_Path r)))"

fun getCostForPath :: "string \<Rightarrow> string \<Rightarrow> APIEndpoint list \<Rightarrow> int64 \<Rightarrow> int64" where
  "getCostForPath path method [] defaultCost = defaultCost"
| "getCostForPath path method (ep # endpoints) defaultCost =
     (if Path ep = path \<and> APIEndpoint.Method ep = method then Cost ep
      else getCostForPath path method endpoints defaultCost)"

definition PaymentAction_json :: "PaymentAction \<Rightarrow> json" where
  "PaymentAction_json a =
     JObject
       ([(''required'', JBool (Required a)),
         (''amount'', JNumber (sint (Amount a))),
         (''currency'', JString (PaymentAction.Currency a)),
         (''payTo'', JString (PaymentAction.PayTo a)),
         (''network'', JString (PaymentAction.Network a)),
         (''asset'', JString (PaymentAction.Asset a)),
         (''endpoint'', JString (Endpoint a)),
         (''expiresAt'', JNumber (sint (PaymentAction.ExpiresAt a)))]
        @ (if PreAuthAvailable a then [(''preAuthAvailable'', JBool True)] else [])
        @ (if PreAuthEndpoint a = [] then []
           else [(''preAuthEndpoint'', JString (PreAuthEndpoint a))])
        @ (if PreAuthMinBudget a = 0 then []
           else [(''preAuthMinBudget'', JNumber (sint (PreAuthMinBudget a)))]))"

definition AIError_json :: "AIError \<Rightarrow> json" where
  "AIError_json e =
     JObject
       ([(''code'', JString (Code e)),
         (''message'', JString (AIError.Message e)),
         (''retryable'', JBool (Retryable e))]
        @ (if RetryAfter e = 0 then [] else [(''retryAfter'', JNumber (RetryAfter e))])
        @ (if Action e = [] then [] else [(''action'', JString (Action e))])
        @ (if Details e = [] then []
           else [(''details'', JObject (map (\<lambda>(k, v). (k, JString v)) (Details e)))])
        @ (case PaymentInfo e of
             None \<Rightarrow> []
           | Some a \<Rightarrow> [(''paymentInfo'', PaymentAction_json a)]))"

text \<open>\<^verbatim>\<open>Duration.Milliseconds\<close>: the nanoseconds divided by a million, towards zero.\<close>

definition Milliseconds :: "int \<Rightarrow> int" where
  "Milliseconds d = (if d < 0 then - ((- d) div 1000000) else d div 1000000)"

definition sendAIError ::
  "Stdlib \<Rightarrow> ResponseWriter \<Rightarrow> string \<Rightarrow> time \<Rightarrow> time \<Rightarrow> time \<Rightarrow> AIError \<Rightarrow> ResponseWriter" where
  "sendAIError std w requestID start tStamp tSince err =
     (let processingMs = Milliseconds (tSince - start);
          meta = JObject
                   ([(''requestId'', JString requestID),
                     (''timestamp'', JString (Format_RFC3339 std tStamp))]
                    @ (if processingMs = 0 then []
                       else [(''processingMs'', JNumber processingMs)]));
          response = JObject [(''success'', JBool False), (''error'', AIError_json err),
                              (''meta'', meta)];
          w1 = SetHeader ''Content-Type'' ''application/json'' w;
          w2 = (if Code err = ErrCodePaymentRequired \<or> Code err = ErrCodeInsufficientBudget
                then WriteHeader 402 w1
                else if Code err = ErrCodeRateLimited then WriteHeader 429 w1
                else if Code err = ErrCodeNotFound then WriteHeader 404 w1
                else if Code err = ErrCodeInvalidRequest then WriteHeader 400 w1
                else WriteHeader 500 w1)
      in Encode std response w2)"

text \<open>The loop over the cached headers in the replay branch.\<close>

fun replayHeaders :: "(string \<times> string) list \<Rightarrow> ResponseWriter \<Rightarrow> ResponseWriter" where
  "replayHeaders [] w = w"
| "replayHeaders ((k, v) # kvs) w = replayHeaders kvs (SetHeader k v w)"

text \<open>The loop that copies the first value of every response header into the record.\<close>

definition snapshotHeaders :: "Header \<Rightarrow> (string \<times> string) list" where
  "snapshotHeaders hdr = map (\<lambda>(k, vs). (k, Header_Get hdr k)) hdr"

text \<open>
  \<^verbatim>\<open>AIFirstMiddleware\<close> serves one request and returns the writer, the
  downstream handler's state and the two stores as they are afterwards. After a
  deduction the source reads \<^verbatim>\<open>budget.Remaining\<close> through the pointer it got
  from the store; the model reads the budget again through the same index.
\<close>

definition AIFirstMiddleware ::
  "Stdlib \<Rightarrow> 'h Handler \<Rightarrow> AIFirstConfig \<Rightarrow> Readings \<Rightarrow> ResponseWriter \<Rightarrow> Request \<Rightarrow> 'h
    \<Rightarrow> ResponseWriter \<times> 'h \<times> InMemoryPreAuthStore option \<times> InMemoryIdempotencyStore option" where
  "AIFirstMiddleware std next config t w0 r h =
     (let start = atStart t;
          requestID = generateRequestID std r (atRequestID t);
          wa = SetHeader ''Content-Type'' ''application/json'' w0;
          wb = SetHeader ''X-Request-ID'' requestID wa;
          w = SetHeader ''X-AI-Optimized'' ''true'' wb;
          idempKey = Header_Get (Header r) ''Idempotency-Key'';
          cached =
            (case IdempotencyStore config of
               None \<Rightarrow> None
             | Some store \<Rightarrow>
                 if EnableIdempotency config \<and> idempKey \<noteq> []
                 then Idempotency_Get store idempKey (atGet t) else None)
      in case cached of
           Some record \<Rightarrow>
             let w1 = replayHeaders (Headers record) w;
                 w2 = SetHeader ''X-Idempotent-Replay'' ''true'' w1;
                 w3 = WriteHeader (StatusCode record) w2
             in (Write (IdempotencyRecord.Body record) w3, h,
                 PreAuthStore config, IdempotencyStore config)
         | None \<Rightarrow>
             let agentID = Header_Get (Header r) ''X-Agent-ID'';
                 found =
                   (case PreAuthStore config of
                      None \<Rightarrow> None
                    | Some store \<Rightarrow>
                        if EnablePreAuth config \<and> agentID \<noteq> []
                        then (case GetByAgentID store agentID of
                                Inr (Some budget) \<Rightarrow> Some (store, budget)
                              | Inr None \<Rightarrow> None
                              | Inl err \<Rightarrow> None)
                        else None);
                 charged =
                   (case found of
                      None \<Rightarrow> Inr (w, r, PreAuthStore config)
                    | Some (store, budget) \<Rightarrow>
                        let cost = getCostForPath (URL_Path r) (Request.Method r)
                                     (Endpoints config) (DefaultCost config)
                        in if Remaining budget <s cost
                           then Inl (sendAIError std w requestID start (atErrorStamp t) (atSince t)
                                  \<lparr>Code = ErrCodeInsufficientBudget,
                                   Message = ''Pre-authorized budget exhausted'',
                                   Retryable = False, RetryAfter = 0, Action = ''pay'',
                                   Details =
                                     [(''budgetId'', PreAuthBudget.ID budget),
                                      (''remaining'', Sprintf_d (sint (Remaining budget))),
                                      (''required'', Sprintf_d (sint cost))],
                                   PaymentInfo = Some
                                     \<lparr>Required = True, Amount = cost - Remaining budget,
                                      PaymentAction.Currency = AIFirstConfig.Currency config,
                                      PaymentAction.PayTo = AIFirstConfig.PayTo config,
                                      PaymentAction.Network = AIFirstConfig.Network config,
                                      PaymentAction.Asset = [], Endpoint = [],
                                      PaymentAction.ExpiresAt = 0,
                                      PreAuthAvailable = True,
                                      PreAuthEndpoint = ''/ai/budget'',
                                      PreAuthMinBudget = 0\<rparr>\<rparr>,
                                 Some store)
                           else
                             (case Deduct store (PreAuthBudget.ID budget) cost of
                                (Some err, store1) \<Rightarrow>
                                  Inl (sendAIError std w requestID start (atErrorStamp t)
                                         (atSince t)
                                         \<lparr>Code = ErrCodeServerError,
                                          Message = ''Failed to deduct from budget'',
                                          Retryable = True, RetryAfter = 1, Action = ''retry'',
                                          Details = [], PaymentInfo = None\<rparr>,
                                       Some store1)
                              | (None, store1) \<Rightarrow>
                                  let remaining =
                                        (case GetByAgentID store1 agentID of
                                           Inr (Some budget1) \<Rightarrow> Remaining budget1
                                         | Inr None \<Rightarrow> Remaining budget
                                         | Inl err \<Rightarrow> Remaining budget);
                                      w1 = SetHeader ''X-Budget-Remaining''
                                             (Sprintf_d (sint remaining)) w;
                                      w2 = SetHeader ''X-Budget-Deducted''
                                             (Sprintf_d (sint cost)) w1;
                                      r1 = r\<lparr>Header :=
                                             Header_Set (Header r) ''X-Payment-Verified'' ''true''\<rparr>
                                  in Inr (w2, r1, Some store1)))
             in (case charged of
                   Inl (wErr, pre) \<Rightarrow> (wErr, h, pre, IdempotencyStore config)
                 | Inr (w1, r1, pre) \<Rightarrow>
                     let wrapped = \<lparr>ResponseWriter_f = w1, statusCode = 200, body = []\<rparr>
                     in (case ServeRecorded next wrapped r1 h of
                           (wrapped1, h1) \<Rightarrow>
                             let idempKey1 = Header_Get (Header r1) ''Idempotency-Key'';
                                 idem1 =
                                   (case IdempotencyStore config of
                                      None \<Rightarrow> None
                                    | Some store \<Rightarrow>
                                        if EnableIdempotency config \<and> idempKey1 \<noteq> []
                                        then
                                          let headers = snapshotHeaders
                                                (HeaderMap (ResponseWriter_f wrapped1));
                                              ttl = (if IdempotencyTTL config = 0 then 24 * Hour
                                                     else IdempotencyTTL config)
                                          in Some (Idempotency_Set store idempKey1
                                               \<lparr>Key = [], StatusCode = statusCode wrapped1,
                                                Headers = headers, Body = body wrapped1,
                                                IdempotencyRecord.CreatedAt = 0,
                                                IdempotencyRecord.ExpiresAt = atExpiry t + ttl\<rparr>
                                               (atSetCreated t) (atSetDefault t))
                                        else Some store)
                             in (ResponseWriter_f wrapped1, h1, pre, idem1))))"

section \<open>Runs of budget operations\<close>










text \<open>A budget as a caller builds it before \<^verbatim>\<open>Create\<close>: 100 units for one agent.\<close>

definition budget100 :: PreAuthBudget where
  "budget100 =
     \<lparr>PreAuthBudget.ID = ''b1'', AgentID = ''agent_456'', WalletAddress = ''0xabc'',
      TotalBudget = 100, Remaining = 0, PreAuthBudget.Currency = ''USDC'',
      PreAuthBudget.CreatedAt = 0, PreAuthBudget.ExpiresAt = Hour,
      PreAuthBudget.Metadata = [], TotalSpent = 0, RequestCount = 0\<rparr>"




text \<open>A metric of one paid request, told apart by its time stamp.\<close>

definition metric_at :: "time \<Rightarrow> UsageMetric" where
  "metric_at t =
     \<lparr>UsageMetric.Timestamp = t, UsageMetric.Endpoint = ''/api/data'',
      UsageMetric.Method = ''GET'', PayerID = ''0xabc'', AmountPaid = 100,
      UsageMetric.Currency = ''USDC'', ResponseCode = 200, Latency = 12,
      PaymentType = ''per-request'', SessionID = [], UserAgent = [], IsAIAgent = False\<rparr>"

section \<open>Concrete requests for the worked examples\<close>

text \<open>
  Stand-ins for the library parameters, a downstream handler that answers 200
  and counts its calls in its state, and a request to \<^verbatim>\<open>/api/data\<close>.
\<close>

definition plainStdlib :: Stdlib where
  "plainStdlib =
     \<lparr>json_Marshal = (\<lambda>v. ''{}''),
      json_Unmarshal = (\<lambda>b. Inl (Error ''unexpected end of JSON input'')),
      base64_Std_DecodeString = (\<lambda>b. Inl (Error ''illegal base64 data'')),
      base64_URL_DecodeString = (\<lambda>b. Inl (Error ''illegal base64 data'')),
      Query_Get = (\<lambda>query key. []),
      Format_RFC3339 = (\<lambda>t. ''2026-01-01T00:00:00Z''),
      Time_String = (\<lambda>t. ''2026-01-01 00:00:00 +0000 UTC''),
      Duration_String = (\<lambda>d. ''1h0m0s''),
      sha256_Sum = (\<lambda>b. replicate 32 0)\<rparr>"

definition countingHandler :: "nat Handler" where
  "countingHandler hdr r calls = ([CallWriteHeader 200, CallWrite ''ok''], Suc calls)"

definition dataRequest :: "Header \<Rightarrow> Request" where
  "dataRequest hdr =
     \<lparr>Request.Method = ''GET'', URL_Path = ''/api/data'', URL_RawQuery = [], Header = hdr\<rparr>"

text \<open>
  A request-bounded session of two requests, both used, allowed under
  \<^verbatim>\<open>/api\<close>; a session configuration whose store holds it; and a payment
  configuration that charges 100 and exempts \<^verbatim>\<open>/health\<close>.
\<close>

definition session2 :: Session where
  "session2 =
     \<lparr>Session.ID = ''sess_1'', PayerAddress = ''0xabc'', Session.CreatedAt = 0,
      Session.ExpiresAt = Hour, SessionType = SessionTypeRequests, MaxRequests = 2,
      UsedRequests = 2, AmountPaid = 200, Session.Currency = ''USDC'',
      Session.AllowedEndpoints = [''/api/*''], Session.Metadata = [], Active = True\<rparr>"

definition sessionConfig2 :: SessionConfig where
  "sessionConfig2 =
     \<lparr>Store = \<lparr>sessions = [''sess_1'' \<mapsto> session2]\<rparr>, DefaultDuration = Hour,
      DefaultMaxRequests = 100, PricePerHour = 1000, SessionConfig.PricePerRequest = 100,
      SessionConfig.Currency = ''USDC'', SessionConfig.AllowedEndpoints = []\<rparr>"

definition paidConfig :: Config where
  "paidConfig =
     \<lparr>Config.PayTo = ''0x1234'', PaymentEndpoint = [], AcceptedMethods = [''Bearer''],
      Config.PricePerRequest = 100, ExemptPaths = [''/health''], Config.Currency = ''USDC'',
      Config.Network = [], Config.Scheme = [], Config.Asset = [], Config.Description = [],
      Config.MaxTimeoutSeconds = 0, PaymentVerifier = None\<rparr>"

text \<open>
  A multi-scheme configuration over the payment configuration above, a payload
  for the Stripe scheme, and library stand-ins whose JSON decoder yields it.
\<close>

definition multiConfig :: MultiSchemeConfig where
  "multiConfig =
     \<lparr>Config.PayTo = ''0x1234'', PaymentEndpoint = [], AcceptedMethods = [''Bearer''],
      Config.PricePerRequest = 100, ExemptPaths = [''/health''], Config.Currency = ''USDC'',
      Config.Network = [], Config.Scheme = [], Config.Asset = [], Config.Description = [],
      Config.MaxTimeoutSeconds = 0, PaymentVerifier = None,
      AcceptedSchemes = [SchemeExact], AcceptedNetworks = [NetworkBaseMainnet],
      PaymentAddresses = Map.empty, FacilitatorURLs = Map.empty, Registry = None\<rparr>"

definition stripePayload :: PaymentPayload where
  "stripePayload =
     \<lparr>PaymentPayload.Scheme = SchemeStripePayment, PaymentPayload.Network = NetworkStripe,
      Payload = ''pi_123'', PaymentPayload.Resource = ''/api/data'',
      PaymentPayload.Timestamp = 1700000000, Signature = [], PaymentPayload.Payer = [],
      Nonce = [], CardToken = [], PaymentIntentID = ''pi_123'', AuthCode = []\<rparr>"

definition decodingStdlib :: Stdlib where
  "decodingStdlib = plainStdlib\<lparr>json_Unmarshal := (\<lambda>b. Inr stripePayload)\<rparr>"

text \<open>
  The headers that \<^verbatim>\<open>AIFirstMiddleware\<close> sets on every response before it
  looks at the request, and the replay of a cached record onto a writer.
\<close>

definition aiHeaders :: "Stdlib \<Rightarrow> Request \<Rightarrow> Readings \<Rightarrow> ResponseWriter \<Rightarrow> ResponseWriter" where
  "aiHeaders std r t w =
     SetHeader ''X-AI-Optimized'' ''true''
       (SetHeader ''X-Request-ID'' (generateRequestID std r (atRequestID t))
          (SetHeader ''Content-Type'' ''application/json'' w))"

definition replayed :: "IdempotencyRecord \<Rightarrow> ResponseWriter \<Rightarrow> ResponseWriter" where
  "replayed cached w =
     Write (IdempotencyRecord.Body cached)
       (WriteHeader (StatusCode cached)
          (SetHeader ''X-Idempotent-Replay'' ''true'' (replayHeaders (Headers cached) w)))"

text \<open>
  A cached response that expires at instant 10, an AI-first configuration with
  idempotency on and an empty store, and a clock that reads the same instant at
  every call site.
\<close>

definition cachedRecord :: IdempotencyRecord where
  "cachedRecord =
     \<lparr>Key = ''key_123'', StatusCode = 201,
      Headers = [(''Content-Type'', ''application/json''), (''X-Custom'', ''value'')],
      IdempotencyRecord.Body = ''{\"result\":\"success\"}'',
      IdempotencyRecord.CreatedAt = 1, IdempotencyRecord.ExpiresAt = 10\<rparr>"

definition aiConfig :: AIFirstConfig where
  "aiConfig =
     \<lparr>Endpoints = [], AIFirstConfig.PayTo = ''0x1234'', AIFirstConfig.Network = ''base'',
      AIFirstConfig.Currency = ''USDC'', AIFirstConfig.Asset = [],
      PreAuthStore = None, IdempotencyStore = Some NewInMemoryIdempotencyStore,
      EnablePreAuth = False, EnableIdempotency = True, IdempotencyTTL = 0,
      DefaultCost = 100\<rparr>"

definition readingsAt :: "time \<Rightarrow> Readings" where
  "readingsAt t =
     \<lparr>atStart = t, atRequestID = t, atGet = t, atErrorStamp = t, atSince = t,
      atExpiry = t, atSetCreated = t, atSetDefault = t\<rparr>"

text \<open>
  The answer of \<^verbatim>\<open>AIFirstMiddleware\<close> to the request with the key
  \<^verbatim>\<open>key_123\<close> at instant 5, on a new writer, when the store holds the given
  record under that key.
\<close>

definition replayOf :: "IdempotencyRecord \<Rightarrow> ResponseWriter" where
  "replayOf cached =
     fst (AIFirstMiddleware plainStdlib countingHandler
            (aiConfig\<lparr>IdempotencyStore := Some \<lparr>records = [''key_123'' \<mapsto> cached]\<rparr>\<rparr>)
            (readingsAt 5) NewRecorder (dataRequest [(''Idempotency-Key'', [''key_123''])]) 0)"

section \<open>Verified properties\<close>

subsection \<open>Arithmetic of 64-bit signed words\<close>


lemma sint64_diff:
  fixes x y :: int64
  assumes "- (2 ^ 63) \<le> sint x - sint y" "sint x - sint y < 2 ^ 63"
  shows "sint (x - y) = sint x - sint y"
  using assms by (simp add: sint_word_diff signed_take_bit_int_eq_self)

lemma sint64_range:
  fixes x :: int64
  shows "- (2 ^ 63) \<le> sint x" "sint x < 2 ^ 63"
  using sint_ge [of x] sint_lt [of x] by simp_all

subsection \<open>Budget store\<close>

text \<open>
  C1. \<^verbatim>\<open>Deduct\<close> on an unknown identifier fails with "budget not found" and
  on a budget whose remaining amount is below the requested amount (as signed
  integers) fails with "insufficient budget"; in both cases the store is returned
  as it was, so remaining, spent and request count are unchanged. Otherwise it
  succeeds, and in \<^verbatim>\<open>int64\<close> arithmetic the remaining amount goes down by the
  amount, the spent amount goes up by the amount and the request count goes up by
  one; for a non-negative amount the remaining amount goes down by it as an
  integer as well. In particular, after creating a budget of 100 and deducting
  60, remaining is 40, and a second deduct of 60 fails and leaves remaining at 40.
\<close>

theorem Deduct_contract:
  "(case budgets s bid of
      None \<Rightarrow> Deduct s bid a = (Some (Error ''budget not found''), s)
    | Some b \<Rightarrow>
        if sint (Remaining b) < sint a
        then Deduct s bid a = (Some (Error ''insufficient budget''), s)
        else (\<exists>s1 b1. Deduct s bid a = (None, s1) \<and> budgets s1 bid = Some b1 \<and>
                Remaining b1 = Remaining b - a \<and>
                TotalSpent b1 = TotalSpent b + a \<and>
                RequestCount b1 = RequestCount b + 1 \<and>
                (0 \<le> sint a \<longrightarrow> sint (Remaining b1) = sint (Remaining b) - sint a)))
   \<and> (TotalBudget b0 = 100 \<longrightarrow>
        (case Create s0 b0 now of (s1, b1) \<Rightarrow>
           (case Deduct s1 (PreAuthBudget.ID b1) 60 of (e2, s2) \<Rightarrow>
              (case Deduct s2 (PreAuthBudget.ID b1) 60 of (e3, s3) \<Rightarrow>
                 e2 = None \<and> map_option Remaining (budgets s2 (PreAuthBudget.ID b1)) = Some 40 \<and>
                 e3 = Some (Error ''insufficient budget'') \<and>
                 map_option Remaining (budgets s3 (PreAuthBudget.ID b1)) = Some 40))))"
proof (intro conjI)
  show "case budgets s bid of
      None \<Rightarrow> Deduct s bid a = (Some (Error ''budget not found''), s)
    | Some b \<Rightarrow>
        if sint (Remaining b) < sint a
        then Deduct s bid a = (Some (Error ''insufficient budget''), s)
        else (\<exists>s1 b1. Deduct s bid a = (None, s1) \<and> budgets s1 bid = Some b1 \<and>
                Remaining b1 = Remaining b - a \<and>
                TotalSpent b1 = TotalSpent b + a \<and>
                RequestCount b1 = RequestCount b + 1 \<and>
                (0 \<le> sint a \<longrightarrow> sint (Remaining b1) = sint (Remaining b) - sint a))"
  proof (cases "budgets s bid")
    case None
    then show ?thesis by (simp add: Deduct_def)
  next
    case (Some b)
    show ?thesis
    proof (cases "sint (Remaining b) < sint a")
      case True
      with Some show ?thesis by (simp add: Deduct_def word_sless_alt)
    next
      case False
      have "0 \<le> sint a \<Longrightarrow> sint (Remaining b - a) = sint (Remaining b) - sint a"
        using False sint64_range [of "Remaining b"] by (intro sint64_diff) linarith+
      with Some False show ?thesis by (simp add: Deduct_def word_sless_alt Let_def)
    qed
  qed
next
  show "TotalBudget b0 = 100 \<longrightarrow>
        (case Create s0 b0 now of (s1, b1) \<Rightarrow>
           (case Deduct s1 (PreAuthBudget.ID b1) 60 of (e2, s2) \<Rightarrow>
              (case Deduct s2 (PreAuthBudget.ID b1) 60 of (e3, s3) \<Rightarrow>
                 e2 = None \<and> map_option Remaining (budgets s2 (PreAuthBudget.ID b1)) = Some 40 \<and>
                 e3 = Some (Error ''insufficient budget'') \<and>
                 map_option Remaining (budgets s3 (PreAuthBudget.ID b1)) = Some 40)))"
  proof
    assume tot: "TotalBudget b0 = 100"
    show "case Create s0 b0 now of (s1, b1) \<Rightarrow>
           (case Deduct s1 (PreAuthBudget.ID b1) 60 of (e2, s2) \<Rightarrow>
              (case Deduct s2 (PreAuthBudget.ID b1) 60 of (e3, s3) \<Rightarrow>
                 e2 = None \<and> map_option Remaining (budgets s2 (PreAuthBudget.ID b1)) = Some 40 \<and>
                 e3 = Some (Error ''insufficient budget'') \<and>
                 map_option Remaining (budgets s3 (PreAuthBudget.ID b1)) = Some 40))"
      by (simp add: Create_def Deduct_def Let_def word_sless_alt tot)
  qed
qed

text \<open>
  The contract at a concrete store: the budget of 100 under the identifier
  \<^verbatim>\<open>b1\<close>, from which 60 is deducted.
\<close>

theorem Deduct_contract_witness:
  "budgets (fst (Create NewInMemoryPreAuthStore budget100 5)) ''b1'' \<noteq> None \<and>
   (0::int) \<le> sint (60 :: int64) \<and> TotalBudget budget100 = 100 \<and>
   (\<exists>s1 b1. Deduct (fst (Create NewInMemoryPreAuthStore budget100 5)) ''b1'' 60 = (None, s1) \<and>
      budgets s1 ''b1'' = Some b1 \<and> sint (Remaining b1) = 40 \<and>
      TotalSpent b1 = 60 \<and> RequestCount b1 = 1)"
proof -
  define s where "s = fst (Create NewInMemoryPreAuthStore budget100 5)"
  define b where "b = budget100\<lparr>PreAuthBudget.CreatedAt := 5, Remaining := 100\<rparr>"
  have stored: "budgets s ''b1'' = Some b"
    by (simp add: s_def b_def Create_def budget100_def NewInMemoryPreAuthStore_def Let_def)
  have fields: "Remaining b = 100" "TotalSpent b = 0" "RequestCount b = 0"
    by (simp_all add: b_def budget100_def)
  have amount: "(0::int) \<le> sint (60 :: int64)" by simp
  have tot: "TotalBudget budget100 = 100" by (simp add: budget100_def)
  from Deduct_contract [of s "''b1''" 60 budget100 NewInMemoryPreAuthStore 5]
  have "\<exists>s1 b1. Deduct s ''b1'' 60 = (None, s1) \<and> budgets s1 ''b1'' = Some b1 \<and>
          Remaining b1 = Remaining b - 60 \<and> TotalSpent b1 = TotalSpent b + 60 \<and>
          RequestCount b1 = RequestCount b + 1 \<and>
          (0 \<le> sint (60 :: int64) \<longrightarrow> sint (Remaining b1) = sint (Remaining b) - sint (60 :: int64))"
    by (simp add: stored fields)
  then obtain s1 b1 where
    "Deduct s ''b1'' 60 = (None, s1)" "budgets s1 ''b1'' = Some b1"
    "TotalSpent b1 = TotalSpent b + 60" "RequestCount b1 = RequestCount b + 1"
    "sint (Remaining b1) = sint (Remaining b) - sint (60 :: int64)"
    using amount by blast
  then have "Deduct s ''b1'' 60 = (None, s1) \<and> budgets s1 ''b1'' = Some b1 \<and>
      sint (Remaining b1) = 40 \<and> TotalSpent b1 = 60 \<and> RequestCount b1 = 1"
    by (simp add: fields)
  then show ?thesis using stored amount tot unfolding s_def by blast
qed


lemma generateBudgetID_value: "generateBudgetID = ''budget_00000000000000000000000000000000''"
  by code_simp

text \<open>
  C9. \<^verbatim>\<open>generateBudgetID\<close> is constant: it encodes sixteen zero bytes, so a
  budget that \<^verbatim>\<open>Create\<close> receives with an empty identifier always gets the
  identifier \<^verbatim>\<open>budget_\<close> followed by 32 zero digits. Two such budgets created
  one after the other get the same identifier, and after the second
  \<^verbatim>\<open>Create\<close> the primary index holds the second budget under it, in the
  place of the first.
\<close>

theorem generateBudgetID_constant:
  "generateBudgetID = ''budget_00000000000000000000000000000000'' \<and>
   (PreAuthBudget.ID b = [] \<longrightarrow>
      PreAuthBudget.ID (snd (Create s b now)) = ''budget_00000000000000000000000000000000'') \<and>
   (PreAuthBudget.ID b1 = [] \<and> PreAuthBudget.ID b2 = [] \<longrightarrow>
      (case Create s b1 t1 of (s1, c1) \<Rightarrow>
         (case Create s1 b2 t2 of (s2, c2) \<Rightarrow>
            PreAuthBudget.ID c1 = PreAuthBudget.ID c2 \<and>
            budgets s1 (PreAuthBudget.ID c1) = Some c1 \<and>
            budgets s2 (PreAuthBudget.ID c1) = Some c2 \<and>
            c2 = b2\<lparr>PreAuthBudget.ID := generateBudgetID, PreAuthBudget.CreatedAt := t2,
                     Remaining := TotalBudget b2\<rparr>)))"
  by (simp add: generateBudgetID_value Create_def Let_def)

text \<open>
  Two budgets for different agents, both without an identifier: the second one
  takes the first one's place in the primary index.
\<close>

theorem generateBudgetID_constant_witness:
  "PreAuthBudget.ID (budget100\<lparr>PreAuthBudget.ID := []\<rparr>) = [] \<and>
   PreAuthBudget.ID (budget100\<lparr>PreAuthBudget.ID := [], AgentID := ''agent_789''\<rparr>) = [] \<and>
   (case Create NewInMemoryPreAuthStore (budget100\<lparr>PreAuthBudget.ID := []\<rparr>) 1 of
      (s1, c1) \<Rightarrow>
        (case Create s1 (budget100\<lparr>PreAuthBudget.ID := [], AgentID := ''agent_789''\<rparr>) 2 of
           (s2, c2) \<Rightarrow>
             map_option AgentID (budgets s1 ''budget_00000000000000000000000000000000'')
               = Some ''agent_456'' \<and>
             map_option AgentID (budgets s2 ''budget_00000000000000000000000000000000'')
               = Some ''agent_789''))"
  using generateBudgetID_constant [of "budget100\<lparr>PreAuthBudget.ID := []\<rparr>"
      NewInMemoryPreAuthStore 1 "budget100\<lparr>PreAuthBudget.ID := []\<rparr>"
      "budget100\<lparr>PreAuthBudget.ID := [], AgentID := ''agent_789''\<rparr>" 1 2]
  by (simp add: Create_def Let_def budget100_def split: prod.splits)














subsection \<open>Metering store\<close>

lemma RecordRequest_step:
  assumes "0 < maxSize s" and "int (length (metrics s)) \<le> maxSize s"
  shows "\<exists>s1. RecordRequest s m = Inr s1 \<and> maxSize s1 = maxSize s \<and>
           int (length (metrics s1)) \<le> maxSize s \<and>
           metrics s1 = drop (length (metrics s @ [m]) - nat (maxSize s)) (metrics s @ [m])"
proof (cases "int (length (metrics s)) \<ge> maxSize s")
  case True
  with assms have full: "length (metrics s) = nat (maxSize s)" by linarith
  with assms(1) obtain oldest rest where xs: "metrics s = oldest # rest"
    by (cases "metrics s") auto
  from full xs have "length rest + 1 = nat (maxSize s)" by simp
  then show ?thesis using True xs assms by (simp add: RecordRequest_def)
next
  case False
  then show ?thesis by (simp add: RecordRequest_def)
qed

lemma RecordRequests_last:
  assumes "0 < maxSize s" and "int (length (metrics s)) \<le> maxSize s"
  shows "\<exists>s1. RecordRequests s ms = Inr s1 \<and> maxSize s1 = maxSize s \<and>
           metrics s1 = drop (length (metrics s @ ms) - nat (maxSize s)) (metrics s @ ms)"
  using assms
proof (induction ms arbitrary: s)
  case Nil
  then show ?case by simp
next
  case (Cons m ms)
  from RecordRequest_step [OF Cons.prems, of m] obtain s1 where
    step: "RecordRequest s m = Inr s1" and cap: "maxSize s1 = maxSize s"
    and len: "int (length (metrics s1)) \<le> maxSize s"
    and xs1: "metrics s1 = drop (length (metrics s @ [m]) - nat (maxSize s)) (metrics s @ [m])"
    by blast
  from Cons.IH [of s1] Cons.prems cap len obtain s2 where
    run: "RecordRequests s1 ms = Inr s2" and cap2: "maxSize s2 = maxSize s"
    and xs2: "metrics s2 = drop (length (metrics s1 @ ms) - nat (maxSize s)) (metrics s1 @ ms)"
    by auto
  define n where "n = nat (maxSize s)"
  define xs where "xs = metrics s @ [m]"
  have "drop (length (drop (length xs - n) xs @ ms) - n) (drop (length xs - n) xs @ ms)
        = drop (length (xs @ ms) - n) (xs @ ms)"
  proof (cases "length xs \<le> n")
    case True
    then show ?thesis by simp
  next
    case False
    define k where "k = length xs - n"
    have k: "k \<le> length xs" and full: "length (drop k xs) = n"
      using False by (simp_all add: k_def)
    have join: "drop k xs @ ms = drop k (xs @ ms)"
      using k by simp
    have "length (drop k xs @ ms) - n = length ms"
      using full by simp
    then have "drop (length (drop k xs @ ms) - n) (drop k xs @ ms)
               = drop (length ms) (drop k (xs @ ms))"
      by (simp only: join)
    also have "\<dots> = drop (length ms + k) (xs @ ms)"
      by (rule drop_drop)
    also have "length ms + k = length (xs @ ms) - n"
      using False by (simp add: k_def)
    finally show ?thesis by (simp only: k_def)
  qed
  then have "metrics s2 = drop (length (metrics s @ m # ms) - nat (maxSize s)) (metrics s @ m # ms)"
    using xs1 xs2 by (simp add: n_def xs_def)
  with step run cap2 show ?case by simp
qed

text \<open>
  C4. For a capacity \<^term>\<open>c > 0\<close> and more than \<^term>\<open>c\<close> calls of
  \<^verbatim>\<open>RecordRequest\<close> on a new store of that capacity, every call returns,
  the store ends with exactly \<^term>\<open>c\<close> records, and they are the last
  \<^term>\<open>c\<close> recorded metrics in the order of recording. A single call on a
  store at capacity drops the oldest record only and appends the new one.
\<close>

theorem metering_keeps_last:
  assumes "0 < c" and "c < int (length ms)"
  shows "(\<exists>s. RecordRequests (NewInMemoryMeteringStore c cur) ms = Inr s \<and>
            int (length (metrics s)) = c \<and>
            metrics s = drop (length ms - nat c) ms) \<and>
         (0 < maxSize st \<and> int (length (metrics st)) = maxSize st \<longrightarrow>
            RecordRequest st m = Inr (st\<lparr>metrics := tl (metrics st) @ [m]\<rparr>))"
proof
  let ?s0 = "NewInMemoryMeteringStore c cur"
  have s0: "maxSize ?s0 = c" "metrics ?s0 = []"
    using assms(1) by (simp_all add: NewInMemoryMeteringStore_def Let_def)
  from RecordRequests_last [of ?s0 ms] s0 assms(1) obtain s where
    "RecordRequests ?s0 ms = Inr s" "metrics s = drop (length ms - nat c) ms"
    by auto
  moreover from this assms have "int (length (metrics s)) = c" by simp
  ultimately show "\<exists>s. RecordRequests ?s0 ms = Inr s \<and> int (length (metrics s)) = c \<and>
            metrics s = drop (length ms - nat c) ms" by blast
next
  show "0 < maxSize st \<and> int (length (metrics st)) = maxSize st \<longrightarrow>
            RecordRequest st m = Inr (st\<lparr>metrics := tl (metrics st) @ [m]\<rparr>)"
    by (cases "metrics st") (auto simp: RecordRequest_def)
qed

text \<open>Five metrics into a store of capacity two: the fourth and the fifth remain.\<close>

theorem metering_keeps_last_witness:
  "(0::int) < 2 \<and> (2::int) < int (length (map metric_at [1, 2, 3, 4, 5])) \<and>
   (\<exists>s. RecordRequests (NewInMemoryMeteringStore 2 ''USDC'') (map metric_at [1, 2, 3, 4, 5]) = Inr s \<and>
        metrics s = [metric_at 4, metric_at 5])"
proof -
  have h1: "(0::int) < 2" by simp
  have h2: "(2::int) < int (length (map metric_at [1, 2, 3, 4, 5]))" by simp
  have last2: "drop (length (map metric_at [1, 2, 3, 4, 5]) - nat 2) (map metric_at [1, 2, 3, 4, 5])
               = [metric_at 4, metric_at 5]" by simp
  from metering_keeps_last [OF h1 h2, of "''USDC''"] obtain s where
    "RecordRequests (NewInMemoryMeteringStore 2 ''USDC'') (map metric_at [1, 2, 3, 4, 5]) = Inr s"
    "metrics s = drop (length (map metric_at [1, 2, 3, 4, 5]) - nat 2) (map metric_at [1, 2, 3, 4, 5])"
    by blast
  with h1 h2 last2 show ?thesis by (simp only:) blast
qed

subsection \<open>Scheme registry\<close>

lemma starts_with_iff:
  "(length pre \<le> length n \<and> take (length pre) n = pre) \<longleftrightarrow> (\<exists>rest. n = pre @ rest)"
proof
  assume "length pre \<le> length n \<and> take (length pre) n = pre"
  then have "n = pre @ drop (length pre) n" by (metis append_take_drop_id)
  then show "\<exists>rest. n = pre @ rest" ..
next
  assume "\<exists>rest. n = pre @ rest"
  then show "length pre \<le> length n \<and> take (length pre) n = pre" by auto
qed

lemma starts_with_longer_iff:
  "(length pre < length n \<and> take (length pre) n = pre) \<longleftrightarrow> (\<exists>rest. rest \<noteq> [] \<and> n = pre @ rest)"
proof
  assume a: "length pre < length n \<and> take (length pre) n = pre"
  then have "n = pre @ drop (length pre) n" by (metis append_take_drop_id)
  moreover from a have "drop (length pre) n \<noteq> []" by simp
  ultimately show "\<exists>rest. rest \<noteq> [] \<and> n = pre @ rest" by blast
next
  assume "\<exists>rest. rest \<noteq> [] \<and> n = pre @ rest"
  then show "length pre < length n \<and> take (length pre) n = pre" by auto
qed

lemma isWildcardMatch_star:
  assumes "pre \<noteq> []"
  shows "isWildcardMatch (pre @ ''*'') n \<longleftrightarrow> (\<exists>rest. rest \<noteq> [] \<and> n = pre @ rest)"
proof -
  have "isWildcardMatch (pre @ ''*'') n \<longleftrightarrow> (length pre < length n \<and> take (length pre) n = pre)"
    using assms by (cases pre) (simp_all add: isWildcardMatch_def nth_append)
  then show ?thesis by (simp only: starts_with_longer_iff)
qed

lemma isWildcardMatch_no_star:
  assumes "pattern = [] \<or> last pattern \<noteq> CHR ''*''"
  shows "\<not> isWildcardMatch pattern n"
proof (cases "pattern = []")
  case True
  then show ?thesis by (simp add: isWildcardMatch_def)
next
  case False
  with assms have "pattern ! (length pattern - 1) \<noteq> CHR ''*''"
    by (simp add: last_conv_nth)
  then show ?thesis by (simp add: isWildcardMatch_def)
qed

lemma networks_loop_iff:
  "networks_loop ns n \<longleftrightarrow> (\<exists>p \<in> set ns. p = n \<or> isWildcardMatch p n)"
  by (induction ns) auto

lemma schemes_loop_iff:
  "schemes_loop ps n \<longleftrightarrow> (\<exists>e \<in> set ps. networks_loop (SupportedNetworks (snd e)) n)"
  by (induction ps) auto

text \<open>
  C8, as far as the code goes. The claim as stated fails at the pattern
  \<^verbatim>\<open>*\<close>: it ends in a star, its literal prefix is empty, and the network
  \<^verbatim>\<open>eip155:1\<close> is longer than that prefix and begins with it, yet the
  length guard of \<^verbatim>\<open>isWildcardMatch\<close> rejects every pattern shorter than two
  characters.
\<close>

theorem wildcard_pattern_counterexample:
  "last ''*'' = CHR ''*'' \<and> length (butlast ''*'') < length ''eip155:1'' \<and>
   take (length (butlast ''*'')) ''eip155:1'' = butlast ''*'' \<and>
   \<not> isWildcardMatch ''*'' ''eip155:1''"
  by (simp add: isWildcardMatch_def)

text \<open>
  C8, amended. For every pattern of at least two characters that ends in a star
  (a non-empty literal prefix followed by the star) and every network, the
  wildcard match holds exactly when the network is strictly longer than the
  prefix and begins with it; the pattern \<^verbatim>\<open>*\<close> alone and every pattern not
  ending in a star match nothing. So \<^verbatim>\<open>fam:*\<close> matches \<^verbatim>\<open>fam:123\<close> and
  \<^verbatim>\<open>fam:abc\<close> but neither \<^verbatim>\<open>other:123\<close> nor \<^verbatim>\<open>fam\<close>.
  \<^verbatim>\<open>SupportsNetwork\<close> is true exactly when some registered scheme lists a
  network equal to the given one or a pattern that wildcard-matches it.
\<close>

theorem wildcard_network_match:
  "(pre \<noteq> [] \<longrightarrow>
      (isWildcardMatch (pre @ ''*'') n \<longleftrightarrow> (\<exists>rest. rest \<noteq> [] \<and> n = pre @ rest))) \<and>
   \<not> isWildcardMatch ''*'' n \<and>
   (pattern = [] \<or> last pattern \<noteq> CHR ''*'' \<longrightarrow> \<not> isWildcardMatch pattern n) \<and>
   isWildcardMatch ''fam:*'' ''fam:123'' \<and> isWildcardMatch ''fam:*'' ''fam:abc'' \<and>
   \<not> isWildcardMatch ''fam:*'' ''other:123'' \<and> \<not> isWildcardMatch ''fam:*'' ''fam'' \<and>
   (SupportsNetwork r n \<longleftrightarrow>
      (\<exists>e \<in> set (schemes r). \<exists>p \<in> set (SupportedNetworks (snd e)).
         p = n \<or> isWildcardMatch p n))"
proof (intro conjI)
  show "pre \<noteq> [] \<longrightarrow>
      (isWildcardMatch (pre @ ''*'') n \<longleftrightarrow> (\<exists>rest. rest \<noteq> [] \<and> n = pre @ rest))"
    using isWildcardMatch_star by blast
  show "\<not> isWildcardMatch ''*'' n" by (simp add: isWildcardMatch_def)
  show "pattern = [] \<or> last pattern \<noteq> CHR ''*'' \<longrightarrow> \<not> isWildcardMatch pattern n"
    using isWildcardMatch_no_star by blast
  show "isWildcardMatch ''fam:*'' ''fam:123''" by (simp add: isWildcardMatch_def)
  show "isWildcardMatch ''fam:*'' ''fam:abc''" by (simp add: isWildcardMatch_def)
  show "\<not> isWildcardMatch ''fam:*'' ''other:123''" by (simp add: isWildcardMatch_def)
  show "\<not> isWildcardMatch ''fam:*'' ''fam''" by (simp add: isWildcardMatch_def)
  show "SupportsNetwork r n \<longleftrightarrow>
      (\<exists>e \<in> set (schemes r). \<exists>p \<in> set (SupportedNetworks (snd e)).
         p = n \<or> isWildcardMatch p n)"
    by (simp add: SupportsNetwork_def schemes_loop_iff networks_loop_iff)
qed

text \<open>
  The registry with the EVM scheme: the wildcard \<^verbatim>\<open>eip155:*\<close> covers a chain
  that the scheme does not list by name, and a pattern without a star matches
  nothing, not even itself.
\<close>

theorem wildcard_network_match_witness:
  "''eip155:'' \<noteq> [] \<and> isWildcardMatch (''eip155:'' @ ''*'') ''eip155:8453'' \<and>
   (''eip155:8453'' = [] \<or> last ''eip155:8453'' \<noteq> CHR ''*'') \<and>
   \<not> isWildcardMatch ''eip155:8453'' ''eip155:8453'' \<and>
   (SchemeExact, ExactEVMScheme) \<in> set (schemes (Register NewSchemeRegistry ExactEVMScheme)) \<and>
   NetworkEVMWildcard \<in> set (SupportedNetworks ExactEVMScheme) \<and>
   SupportsNetwork (Register NewSchemeRegistry ExactEVMScheme) ''eip155:777''"
proof -
  have pre: "''eip155:'' \<noteq> []" by simp
  have rest: "\<exists>rest. rest \<noteq> [] \<and> ''eip155:8453'' = ''eip155:'' @ rest" by simp
  have nostar: "''eip155:8453'' = [] \<or> last ''eip155:8453'' \<noteq> CHR ''*''" by simp
  have reg: "(SchemeExact, ExactEVMScheme) \<in> set (schemes (Register NewSchemeRegistry ExactEVMScheme))"
    by (simp add: Register_def NewSchemeRegistry_def ExactEVMScheme_def)
  have net: "NetworkEVMWildcard \<in> set (SupportedNetworks ExactEVMScheme)"
    by (simp add: ExactEVMScheme_def)
  have star: "isWildcardMatch NetworkEVMWildcard ''eip155:777''"
    by (simp add: isWildcardMatch_def NetworkEVMWildcard_def)
  note thm1 = wildcard_network_match [of "''eip155:''" "''eip155:8453''" "''eip155:8453''"]
  note thm2 = wildcard_network_match [of "''eip155:''" "''eip155:777''" "''eip155:8453''"
      "Register NewSchemeRegistry ExactEVMScheme"]
  from thm1 pre rest have a: "isWildcardMatch (''eip155:'' @ ''*'') ''eip155:8453''" by blast
  from thm1 nostar have b: "\<not> isWildcardMatch ''eip155:8453'' ''eip155:8453''" by blast
  from thm2 reg net star have c: "SupportsNetwork (Register NewSchemeRegistry ExactEVMScheme) ''eip155:777''"
    by force
  from pre a nostar b reg net c show ?thesis by blast
qed

subsection \<open>Sessions\<close>

lemma matchesPattern_iff:
  "matchesPattern path pattern \<longleftrightarrow>
     pattern = ''*'' \<or> pattern = ''/*'' \<or> path = pattern \<or>
     (\<exists>pre rest. pre \<noteq> [] \<and> pattern = pre @ ''/*'' \<and> path = pre @ rest)"
proof (cases "pattern = ''*'' \<or> pattern = ''/*''")
  case True
  then show ?thesis by (auto simp: matchesPattern_def)
next
  case False
  show ?thesis
  proof (cases "length pattern > 2 \<and> drop (length pattern - 2) pattern = ''/*''")
    case True
    define pre where "pre = take (length pattern - 2) pattern"
    have pat: "pattern = pre @ ''/*''"
      using True append_take_drop_id [of "length pattern - 2" pattern] by (simp add: pre_def)
    have ne: "pre \<noteq> []" using True by (auto simp: pre_def)
    have "matchesPattern path pattern \<longleftrightarrow> (length pre \<le> length path \<and> take (length pre) path = pre)"
      using True False by (simp add: matchesPattern_def pre_def Let_def)
    also have "\<dots> \<longleftrightarrow> (\<exists>rest. path = pre @ rest)" by (rule starts_with_iff)
    finally have m: "matchesPattern path pattern \<longleftrightarrow> (\<exists>rest. path = pre @ rest)" .
    show ?thesis
    proof
      assume "matchesPattern path pattern"
      with m ne pat show "pattern = ''*'' \<or> pattern = ''/*'' \<or> path = pattern \<or>
        (\<exists>pre rest. pre \<noteq> [] \<and> pattern = pre @ ''/*'' \<and> path = pre @ rest)" by blast
    next
      assume "pattern = ''*'' \<or> pattern = ''/*'' \<or> path = pattern \<or>
        (\<exists>pre rest. pre \<noteq> [] \<and> pattern = pre @ ''/*'' \<and> path = pre @ rest)"
      with False consider "path = pattern"
        | pre' rest where "pattern = pre' @ ''/*''" "path = pre' @ rest" by blast
      then have "\<exists>rest. path = pre @ rest"
      proof cases
        case 1
        with pat show ?thesis by blast
      next
        case 2
        with pat have "pre' = pre" by simp
        with 2 show ?thesis by blast
      qed
      with m show "matchesPattern path pattern" by simp
    qed
  next
    case F2: False
    have none: "\<not> (\<exists>pre rest. pre \<noteq> [] \<and> pattern = pre @ ''/*'' \<and> path = pre @ rest)"
    proof
      assume "\<exists>pre rest. pre \<noteq> [] \<and> pattern = pre @ ''/*'' \<and> path = pre @ rest"
      then obtain pre where "pre \<noteq> []" "pattern = pre @ ''/*''" by blast
      then have "length pattern > 2 \<and> drop (length pattern - 2) pattern = ''/*''"
        by (cases pre) simp_all
      with F2 show False by simp
    qed
    have "matchesPattern path pattern \<longleftrightarrow> path = pattern"
      using False F2 by (auto simp: matchesPattern_def)
    with False none show ?thesis by blast
  qed
qed

lemma endpoints_loop_iff:
  "endpoints_loop path es \<longleftrightarrow> (\<exists>e \<in> set es. path = e \<or> matchesPattern path e)"
  by (induction es) auto

lemma sendSessionError_401:
  "ResponseWriter.Code w = None \<Longrightarrow>
     ResponseWriter.Code (sendSessionError std w code msg) = Some 401"
  by (simp add: sendSessionError_def Encode_def Write_def WriteHeader_def SetHeader_def Let_def)

lemma Header_Get_empty_iff:
  "Header_Get hdr key = [] \<longleftrightarrow>
     (case map_of hdr (CanonicalMIMEHeaderKey key) of
        None \<Rightarrow> True | Some [] \<Rightarrow> True | Some (v # vs) \<Rightarrow> v = [])"
  by (simp add: Header_Get_def split: option.splits list.splits)

lemma canonical_session_key: "CanonicalMIMEHeaderKey ''X-Session-ID'' = ''X-Session-Id''"
  by code_simp

text \<open>
  C5. \<^verbatim>\<open>validateSession\<close> checks in this order and returns the reason of
  the first check that fails: the active flag; the expiry (expired when the clock
  is after \<^verbatim>\<open>ExpiresAt\<close>); for a session of type \<^verbatim>\<open>requests\<close> the count
  (exhausted when used is at least max, so always when used equals max); the
  allow-list (an empty list allows every path; otherwise some entry must equal
  the path, be \<^verbatim>\<open>*\<close> or \<^verbatim>\<open>/*\<close>, or be a non-empty prefix followed by
  \<^verbatim>\<open>/*\<close> with the path beginning with that prefix). When validation of the
  session named by the request fails, \<^verbatim>\<open>SessionMiddleware\<close> answers with the
  session error of status 401 carrying that reason, calls no handler and leaves
  the store alone.
\<close>

theorem validateSession_order:
  "(\<not> Active s \<longrightarrow> validateSession s path now = Some (Error ''session is inactive'')) \<and>
   (Active s \<and> Session.ExpiresAt s < now \<longrightarrow>
      validateSession s path now = Some (Error ''session has expired'')) \<and>
   (Active s \<and> now \<le> Session.ExpiresAt s \<and> SessionType s = ''requests'' \<and>
    sint (MaxRequests s) \<le> sint (UsedRequests s) \<longrightarrow>
      validateSession s path now = Some (Error ''session request limit exceeded'')) \<and>
   (Active s \<and> now \<le> Session.ExpiresAt s \<and> SessionType s = ''requests'' \<and>
    UsedRequests s = MaxRequests s \<longrightarrow>
      validateSession s path now = Some (Error ''session request limit exceeded'')) \<and>
   (Active s \<and> now \<le> Session.ExpiresAt s \<and>
    \<not> (SessionType s = ''requests'' \<and> sint (MaxRequests s) \<le> sint (UsedRequests s)) \<longrightarrow>
      validateSession s path now =
        (if Session.AllowedEndpoints s = [] \<or>
            (\<exists>e \<in> set (Session.AllowedEndpoints s).
               path = e \<or> e = ''*'' \<or> e = ''/*'' \<or>
               (\<exists>pre rest. pre \<noteq> [] \<and> e = pre @ ''/*'' \<and> path = pre @ rest))
         then None else Some (Error ''endpoint not allowed for this session''))) \<and>
   (Header_Get (Header r) ''X-Session-ID'' \<noteq> [] \<and>
    sessions (Store config) (Header_Get (Header r) ''X-Session-ID'') = Some s \<and>
    validateSession s (URL_Path r) tValidate = Some (Error msg) \<and>
    ResponseWriter.Code w = None \<longrightarrow>
      (case SessionMiddleware std nxt config tValidate tRemaining w r h of
         (w1, h1, store1) \<Rightarrow>
           w1 = sendSessionError std w ''session_error'' msg \<and>
           ResponseWriter.Code w1 = Some 401 \<and> h1 = h \<and> store1 = Store config))"
proof (intro conjI impI)
  show "validateSession s path now = Some (Error ''session is inactive'')" if "\<not> Active s"
    using that by (simp add: validateSession_def)
  show "validateSession s path now = Some (Error ''session has expired'')"
    if "Active s \<and> Session.ExpiresAt s < now"
    using that by (simp add: validateSession_def)
  show "validateSession s path now = Some (Error ''session request limit exceeded'')"
    if "Active s \<and> now \<le> Session.ExpiresAt s \<and> SessionType s = ''requests'' \<and>
        sint (MaxRequests s) \<le> sint (UsedRequests s)"
    using that by (simp add: validateSession_def SessionTypeRequests_def word_sle_eq)
  show "validateSession s path now = Some (Error ''session request limit exceeded'')"
    if "Active s \<and> now \<le> Session.ExpiresAt s \<and> SessionType s = ''requests'' \<and>
        UsedRequests s = MaxRequests s"
    using that by (simp add: validateSession_def SessionTypeRequests_def word_sle_eq)
  show "validateSession s path now =
        (if Session.AllowedEndpoints s = [] \<or>
            (\<exists>e \<in> set (Session.AllowedEndpoints s).
               path = e \<or> e = ''*'' \<or> e = ''/*'' \<or>
               (\<exists>pre rest. pre \<noteq> [] \<and> e = pre @ ''/*'' \<and> path = pre @ rest))
         then None else Some (Error ''endpoint not allowed for this session''))"
    if a: "Active s \<and> now \<le> Session.ExpiresAt s \<and>
        \<not> (SessionType s = ''requests'' \<and> sint (MaxRequests s) \<le> sint (UsedRequests s))"
  proof -
    define allowed where "allowed \<longleftrightarrow>
          (\<exists>e \<in> set (Session.AllowedEndpoints s).
               path = e \<or> e = ''*'' \<or> e = ''/*'' \<or>
               (\<exists>pre rest. pre \<noteq> [] \<and> e = pre @ ''/*'' \<and> path = pre @ rest))"
    have loop: "endpoints_loop path (Session.AllowedEndpoints s) \<longleftrightarrow> allowed"
      unfolding allowed_def endpoints_loop_iff matchesPattern_iff by blast
    have "\<not> (SessionType s = SessionTypeRequests \<and> MaxRequests s \<le>s UsedRequests s)"
      using a by (simp add: SessionTypeRequests_def word_sle_eq)
    with a have v: "validateSession s path now =
        (if length (Session.AllowedEndpoints s) > 0 \<and>
            \<not> endpoints_loop path (Session.AllowedEndpoints s)
         then Some (Error ''endpoint not allowed for this session'') else None)"
      by (auto simp: validateSession_def)
    have "validateSession s path now =
        (if Session.AllowedEndpoints s = [] \<or> allowed
         then None else Some (Error ''endpoint not allowed for this session''))"
      unfolding v loop by (cases "Session.AllowedEndpoints s = []"; cases allowed) simp_all
    then show ?thesis unfolding allowed_def .
  qed
  show "case SessionMiddleware std nxt config tValidate tRemaining w r h of
         (w1, h1, store1) \<Rightarrow>
           w1 = sendSessionError std w ''session_error'' msg \<and>
           ResponseWriter.Code w1 = Some 401 \<and> h1 = h \<and> store1 = Store config"
    if "Header_Get (Header r) ''X-Session-ID'' \<noteq> [] \<and>
        sessions (Store config) (Header_Get (Header r) ''X-Session-ID'') = Some s \<and>
        validateSession s (URL_Path r) tValidate = Some (Error msg) \<and>
        ResponseWriter.Code w = None"
    using that by (simp add: SessionMiddleware_def GetSession_def Let_def sendSessionError_401)
qed

text \<open>
  A request-bounded session with two of two requests used: exhausted, and
  answered 401 by the middleware. The same session made inactive, looked at after
  its expiry, or with one request left on an allowed and on a forbidden path.
\<close>

theorem validateSession_order_witness:
  "validateSession (session2\<lparr>Active := False\<rparr>) ''/api/data'' 5
     = Some (Error ''session is inactive'') \<and>
   validateSession session2 ''/api/data'' (2 * Hour) = Some (Error ''session has expired'') \<and>
   validateSession session2 ''/api/data'' 5 = Some (Error ''session request limit exceeded'') \<and>
   validateSession (session2\<lparr>UsedRequests := 1\<rparr>) ''/api/data'' 5 = None \<and>
   validateSession (session2\<lparr>UsedRequests := 1\<rparr>) ''/admin'' 5
     = Some (Error ''endpoint not allowed for this session'') \<and>
   (case SessionMiddleware plainStdlib countingHandler sessionConfig2 5 5 NewRecorder
           (dataRequest [(''X-Session-Id'', [''sess_1''])]) 0 of
      (w1, h1, store1) \<Rightarrow>
        ResponseWriter.Code w1 = Some 401 \<and> h1 = 0 \<and> store1 = Store sessionConfig2)"
proof -
  have key: "Header_Get (Header (dataRequest [(''X-Session-Id'', [''sess_1''])])) ''X-Session-ID''
             = ''sess_1''"
    by (simp add: Header_Get_def canonical_session_key dataRequest_def)
  have stored: "sessions (Store sessionConfig2) ''sess_1'' = Some session2"
    by (simp add: sessionConfig2_def)
  have fresh: "ResponseWriter.Code NewRecorder = None" by (simp add: NewRecorder_def)
  have path: "URL_Path (dataRequest [(''X-Session-Id'', [''sess_1''])]) = ''/api/data''"
    by (simp add: dataRequest_def)
  have inactive: "validateSession (session2\<lparr>Active := False\<rparr>) ''/api/data'' 5
     = Some (Error ''session is inactive'')"
    using validateSession_order
      [where s = "session2\<lparr>Active := False\<rparr>" and path = "''/api/data''" and now = 5,
        THEN conjunct1]
    by simp
  have expired: "validateSession session2 ''/api/data'' (2 * Hour)
     = Some (Error ''session has expired'')"
    using validateSession_order
      [where s = session2 and path = "''/api/data''" and now = "2 * Hour",
        THEN conjunct2, THEN conjunct1]
    by (simp add: session2_def Hour_def)
  have exhausted: "validateSession session2 ''/api/data'' 5
     = Some (Error ''session request limit exceeded'')"
    using validateSession_order
      [where s = session2 and path = "''/api/data''" and now = 5,
        THEN conjunct2, THEN conjunct2, THEN conjunct2, THEN conjunct1]
    by (simp add: session2_def Hour_def SessionTypeRequests_def)
  have allowed: "validateSession (session2\<lparr>UsedRequests := 1\<rparr>) ''/api/data'' 5 = None"
  proof -
    have "''/api/data'' = ''/api'' @ ''/data''" by simp
    then have "\<exists>pre rest. pre \<noteq> [] \<and> ''/api/*'' = pre @ ''/*'' \<and> ''/api/data'' = pre @ rest"
      by (intro exI [of _ "''/api''"] exI [of _ "''/data''"]) simp
    then show ?thesis
      using validateSession_order
        [where s = "session2\<lparr>UsedRequests := 1\<rparr>" and path = "''/api/data''" and now = 5,
          THEN conjunct2, THEN conjunct2, THEN conjunct2, THEN conjunct2, THEN conjunct1]
      by (simp add: session2_def Hour_def SessionTypeRequests_def)
  qed
  have forbidden: "validateSession (session2\<lparr>UsedRequests := 1\<rparr>) ''/admin'' 5
     = Some (Error ''endpoint not allowed for this session'')"
  proof -
    have "\<not> (\<exists>pre rest. pre \<noteq> [] \<and> ''/api/*'' = pre @ ''/*'' \<and> ''/admin'' = pre @ rest)"
    proof
      assume "\<exists>pre rest. pre \<noteq> [] \<and> ''/api/*'' = pre @ ''/*'' \<and> ''/admin'' = pre @ rest"
      then obtain pre rest where "''/api/*'' = pre @ ''/*''" "''/admin'' = pre @ rest" by blast
      moreover from this(1) have "pre = ''/api''" by (simp add: append_eq_Cons_conv)
      ultimately show False by simp
    qed
    then show ?thesis
      using validateSession_order
        [where s = "session2\<lparr>UsedRequests := 1\<rparr>" and path = "''/admin''" and now = 5,
          THEN conjunct2, THEN conjunct2, THEN conjunct2, THEN conjunct2, THEN conjunct1]
      by (simp add: session2_def Hour_def SessionTypeRequests_def)
  qed
  have answered: "case SessionMiddleware plainStdlib countingHandler sessionConfig2 5 5 NewRecorder
           (dataRequest [(''X-Session-Id'', [''sess_1''])]) 0 of
      (w1, h1, store1) \<Rightarrow>
        ResponseWriter.Code w1 = Some 401 \<and> h1 = 0 \<and> store1 = Store sessionConfig2"
    using validateSession_order
      [where s = session2 and r = "dataRequest [(''X-Session-Id'', [''sess_1''])]"
         and config = sessionConfig2 and tValidate = 5
         and msg = "''session request limit exceeded''" and w = NewRecorder
         and std = plainStdlib and nxt = countingHandler and tRemaining = 5 and h = 0,
        THEN conjunct2, THEN conjunct2, THEN conjunct2, THEN conjunct2, THEN conjunct2]
      exhausted
    by (simp add: key stored fresh path split: prod.splits)
  from inactive expired exhausted allowed forbidden answered show ?thesis by blast
qed

text \<open>
  C10. The header \<^verbatim>\<open>X-Session-ID\<close> reads as empty exactly when the request has
  no values under its canonical key or the first value is empty. For every such
  request \<^verbatim>\<open>SessionMiddleware\<close> calls the next handler with the writer and the
  request it was given and returns what that handler returns; the session store
  is read by no step of this path and is returned as it was, whatever it holds.
\<close>

theorem no_session_id_forwards:
  "(Header_Get (Header r) ''X-Session-ID'' = [] \<longleftrightarrow>
      map_of (Header r) ''X-Session-Id'' = None \<or> map_of (Header r) ''X-Session-Id'' = Some [] \<or>
      (\<exists>vs. map_of (Header r) ''X-Session-Id'' = Some ([] # vs))) \<and>
   (Header_Get (Header r) ''X-Session-ID'' = [] \<longrightarrow>
      SessionMiddleware std nxt config tValidate tRemaining w r h =
        (fst (ServeHTTP nxt w r h), snd (ServeHTTP nxt w r h), Store config))"
proof
  show "Header_Get (Header r) ''X-Session-ID'' = [] \<longleftrightarrow>
      map_of (Header r) ''X-Session-Id'' = None \<or> map_of (Header r) ''X-Session-Id'' = Some [] \<or>
      (\<exists>vs. map_of (Header r) ''X-Session-Id'' = Some ([] # vs))"
    by (auto simp: Header_Get_empty_iff canonical_session_key split: option.splits list.splits)
  show "Header_Get (Header r) ''X-Session-ID'' = [] \<longrightarrow>
      SessionMiddleware std nxt config tValidate tRemaining w r h =
        (fst (ServeHTTP nxt w r h), snd (ServeHTTP nxt w r h), Store config)"
    by (simp add: SessionMiddleware_def Let_def split: prod.splits)
qed

text \<open>
  A request without the header, against the store holding the exhausted session:
  the handler is called once, answers 200, and the store keeps the session as it
  was.
\<close>

theorem no_session_id_forwards_witness:
  "Header_Get (Header (dataRequest [])) ''X-Session-ID'' = [] \<and>
   (case SessionMiddleware plainStdlib countingHandler sessionConfig2 5 5 NewRecorder
           (dataRequest []) 0 of
      (w1, h1, store1) \<Rightarrow>
        ResponseWriter.Code w1 = Some 200 \<and> ResponseWriter.Body w1 = ''ok'' \<and> h1 = 1 \<and>
        store1 = Store sessionConfig2)"
proof -
  have empty: "Header_Get (Header (dataRequest [])) ''X-Session-ID'' = []"
    by (simp add: Header_Get_def dataRequest_def)
  have served: "ServeHTTP countingHandler NewRecorder (dataRequest []) 0
      = (\<lparr>HeaderMap = [], ResponseWriter.Code = Some 200, ResponseWriter.Body = ''ok''\<rparr>, 1)"
    by (simp add: ServeHTTP_def countingHandler_def NewRecorder_def WriteHeader_def Write_def
        Let_def)
  from no_session_id_forwards [of "dataRequest []" plainStdlib countingHandler sessionConfig2
      5 5 NewRecorder 0] empty
  have "SessionMiddleware plainStdlib countingHandler sessionConfig2 5 5 NewRecorder
           (dataRequest []) 0
        = (fst (ServeHTTP countingHandler NewRecorder (dataRequest []) 0),
           snd (ServeHTTP countingHandler NewRecorder (dataRequest []) 0), Store sessionConfig2)"
    by blast
  with empty served show ?thesis by simp
qed

subsection \<open>Payment middleware\<close>

lemma HasPrefix_iff: "HasPrefix s pre \<longleftrightarrow> (\<exists>suffix. s = pre @ suffix)"
  unfolding HasPrefix_def by (rule starts_with_iff)

lemma isExemptPath_iff:
  "isExemptPath path ps \<longleftrightarrow> (\<exists>p \<in> set ps. \<exists>suffix. path = p @ suffix)"
  by (induction ps) (auto simp: HasPrefix_iff)

text \<open>
  C7. \<^verbatim>\<open>isExemptPath\<close> is literal prefix matching: a path is exempt exactly
  when it is some configured prefix followed by any suffix, the empty one
  included, so the prefix \<^verbatim>\<open>/health\<close> also exempts \<^verbatim>\<open>/healthz\<close>. For
  every such request \<^verbatim>\<open>Middleware\<close> calls the next handler with the writer
  and the request it was given and returns what that handler returns, whatever
  the request's headers, the accepted methods and the verifier are: no token is
  extracted and nothing is verified.
\<close>

theorem exempt_prefix_forwards:
  "(isExemptPath path ps \<longleftrightarrow> (\<exists>p \<in> set ps. \<exists>suffix. path = p @ suffix)) \<and>
   (p \<in> set (ExemptPaths config) \<and> URL_Path r = p @ suffix \<longrightarrow>
      Middleware std nxt config now w r h = ServeHTTP nxt w r h) \<and>
   isExemptPath ''/healthz'' [''/health'']"
proof (intro conjI impI)
  show "isExemptPath path ps \<longleftrightarrow> (\<exists>p \<in> set ps. \<exists>suffix. path = p @ suffix)"
    by (rule isExemptPath_iff)
  show "Middleware std nxt config now w r h = ServeHTTP nxt w r h"
    if "p \<in> set (ExemptPaths config) \<and> URL_Path r = p @ suffix"
  proof -
    from that have "isExemptPath (URL_Path r) (ExemptPaths (defaultCurrency config))"
      unfolding isExemptPath_iff by (auto simp: defaultCurrency_def)
    then show ?thesis by (simp add: Middleware_def Let_def)
  qed
  show "isExemptPath ''/healthz'' [''/health'']" by (simp add: HasPrefix_def)
qed


text \<open>
  The prefix \<^verbatim>\<open>/health\<close> and a request to \<^verbatim>\<open>/healthz\<close> that carries no
  payment: the handler is called once and its 200 is the answer.
\<close>

theorem exempt_prefix_forwards_witness:
  "''/health'' \<in> set (ExemptPaths paidConfig) \<and>
   URL_Path ((dataRequest [])\<lparr>URL_Path := ''/healthz''\<rparr>) = ''/health'' @ ''z'' \<and>
   Middleware plainStdlib countingHandler paidConfig 5 NewRecorder
       ((dataRequest [])\<lparr>URL_Path := ''/healthz''\<rparr>) 0
     = (\<lparr>HeaderMap = [], ResponseWriter.Code = Some 200, ResponseWriter.Body = ''ok''\<rparr>, 1)"
proof -
  have h1: "''/health'' \<in> set (ExemptPaths paidConfig)" by (simp add: paidConfig_def)
  have h2: "URL_Path ((dataRequest [])\<lparr>URL_Path := ''/healthz''\<rparr>) = ''/health'' @ ''z''"
    by simp
  have served: "ServeHTTP countingHandler NewRecorder ((dataRequest [])\<lparr>URL_Path := ''/healthz''\<rparr>) 0
      = (\<lparr>HeaderMap = [], ResponseWriter.Code = Some 200, ResponseWriter.Body = ''ok''\<rparr>, 1)"
    by (simp add: ServeHTTP_def countingHandler_def NewRecorder_def WriteHeader_def Write_def
        Let_def)
  from exempt_prefix_forwards [of _ _ "''/health''" paidConfig
      "(dataRequest [])\<lparr>URL_Path := ''/healthz''\<rparr>" "''z''" plainStdlib countingHandler 5
      NewRecorder 0] h1 h2
  have "Middleware plainStdlib countingHandler paidConfig 5 NewRecorder
       ((dataRequest [])\<lparr>URL_Path := ''/healthz''\<rparr>) 0
     = ServeHTTP countingHandler NewRecorder ((dataRequest [])\<lparr>URL_Path := ''/healthz''\<rparr>) 0"
    by blast
  with h1 h2 served show ?thesis by simp
qed

subsection \<open>Multi-scheme middleware\<close>

lemma map_of_update_entry: "map_of (update_entry k v hdr) = (map_of hdr)(k \<mapsto> v)"
  by (induction hdr) (auto simp: fun_eq_iff)

lemma Header_Get_Set:
  "Header_Get (Header_Set hdr key val) key' =
     (if CanonicalMIMEHeaderKey key' = CanonicalMIMEHeaderKey key then val
      else Header_Get hdr key')"
  by (simp add: Header_Get_def Header_Set_def map_of_update_entry)

lemma canonical_payment_required:
  "CanonicalMIMEHeaderKey ''PAYMENT-REQUIRED'' = ''Payment-Required''"
  by code_simp

lemma canonical_content_type: "CanonicalMIMEHeaderKey ''Content-Type'' = ''Content-Type''"
  by code_simp

lemma multiSchemeResponse_shape:
  "X402Version_f (multiSchemeResponse config r) = 1 \<and>
   Accepts (multiSchemeResponse config r) \<noteq> [] \<and>
   Error_f (multiSchemeResponse config r)
     = ''Payment required - select a supported scheme and network''"
  by (simp add: multiSchemeResponse_def Let_def X402Version_def)

lemma sendMultiSchemePaymentRequired_shape:
  assumes "ResponseWriter.Code w = None"
  shows "ResponseWriter.Code (sendMultiSchemePaymentRequired std w config r) = Some 402"
    and "ResponseWriter.Body (sendMultiSchemePaymentRequired std w config r) =
           ResponseWriter.Body w @
           json_Marshal std (PaymentRequiredResponse_json (multiSchemeResponse config r)) @
           [CHR 0x0A]"
    and "Header_Get (HeaderMap (sendMultiSchemePaymentRequired std w config r)) ''PAYMENT-REQUIRED''
           = base64_EncodeToString
               (json_Marshal std (PaymentRequiredResponse_json (multiSchemeResponse config r)))"
    and "Header_Get (HeaderMap (sendMultiSchemePaymentRequired std w config r)) ''Content-Type''
           = ''application/json''"
  using assms
  by (simp_all add: sendMultiSchemePaymentRequired_def Let_def Encode_def Write_def
      WriteHeader_def SetHeader_def Header_Get_Set canonical_payment_required
      canonical_content_type)

lemma canonical_payment_signature:
  "CanonicalMIMEHeaderKey ''PAYMENT-SIGNATURE'' = ''Payment-Signature''"
  by code_simp

lemma canonical_x_payment: "CanonicalMIMEHeaderKey ''X-PAYMENT'' = ''X-Payment''"
  by code_simp

lemma base64_braces: "base64_EncodeToString ''{}'' = ''e30=''"
  by code_simp

text \<open>
  C6. Every rejection path of \<^verbatim>\<open>MultiSchemeMiddleware\<close> (no token, a token
  that does not parse, a scheme that the registry does not hold, a verifier that
  returns an error or an invalid result) ends in the same call of
  \<^verbatim>\<open>sendMultiSchemePaymentRequired\<close> on the writer and request it was given,
  without calling the next handler. On a writer whose status is not yet written
  that call sets status 402, writes as body the JSON document with
  \<^verbatim>\<open>x402Version\<close> 1, a non-empty \<^verbatim>\<open>accepts\<close> list and the \<^verbatim>\<open>error\<close>
  message (followed by a newline), and sets the \<^verbatim>\<open>PAYMENT-REQUIRED\<close> header to
  the base64 encoding of the rendering of that same document.
\<close>

theorem multi_scheme_rejections_uniform:
  "(\<not> isExemptPath (URL_Path r) (ExemptPaths config) \<and>
    extractPaymentToken std r (AcceptedMethods config) = [] \<longrightarrow>
      MultiSchemeMiddleware std nxt config DefaultRegistry w r h =
        Inr (sendMultiSchemePaymentRequired std w (defaultCurrency config) r, h)) \<and>
   (\<not> isExemptPath (URL_Path r) (ExemptPaths config) \<and>
    extractPaymentToken std r (AcceptedMethods config) \<noteq> [] \<and>
    parsePaymentPayload std (extractPaymentToken std r (AcceptedMethods config)) = Inl e \<longrightarrow>
      MultiSchemeMiddleware std nxt config DefaultRegistry w r h =
        Inr (sendMultiSchemePaymentRequired std w (defaultCurrency config) r, h)) \<and>
   (\<not> isExemptPath (URL_Path r) (ExemptPaths config) \<and>
    extractPaymentToken std r (AcceptedMethods config) \<noteq> [] \<and>
    parsePaymentPayload std (extractPaymentToken std r (AcceptedMethods config)) = Inr payload \<and>
    Registry_Get (registryOf config DefaultRegistry) (PaymentPayload.Scheme payload) = None \<longrightarrow>
      MultiSchemeMiddleware std nxt config DefaultRegistry w r h =
        Inr (sendMultiSchemePaymentRequired std w (defaultCurrency config) r, h)) \<and>
   (\<not> isExemptPath (URL_Path r) (ExemptPaths config) \<and>
    extractPaymentToken std r (AcceptedMethods config) \<noteq> [] \<and>
    parsePaymentPayload std (extractPaymentToken std r (AcceptedMethods config)) = Inr payload \<and>
    Registry_Get (registryOf config DefaultRegistry) (PaymentPayload.Scheme payload)
      = Some scheme \<and>
    (Verify scheme payload (verificationRequirements (defaultCurrency config) r payload)
       = (result, Some err) \<or>
     (\<exists>res. Verify scheme payload (verificationRequirements (defaultCurrency config) r payload)
              = (Some res, None) \<and> \<not> Valid res)) \<longrightarrow>
      MultiSchemeMiddleware std nxt config DefaultRegistry w r h =
        Inr (sendMultiSchemePaymentRequired std w (defaultCurrency config) r, h)) \<and>
   (ResponseWriter.Code w = None \<longrightarrow>
      ResponseWriter.Code (sendMultiSchemePaymentRequired std w (defaultCurrency config) r)
        = Some 402 \<and>
      (\<exists>accepts. accepts \<noteq> [] \<and>
         PaymentRequiredResponse_json (multiSchemeResponse (defaultCurrency config) r) =
           JObject [(''x402Version'', JNumber 1),
                    (''accepts'', JArray (map PaymentRequirements_json accepts)),
                    (''error'',
                     JString ''Payment required - select a supported scheme and network'')]) \<and>
      ResponseWriter.Body (sendMultiSchemePaymentRequired std w (defaultCurrency config) r) =
        ResponseWriter.Body w @
        json_Marshal std
          (PaymentRequiredResponse_json (multiSchemeResponse (defaultCurrency config) r)) @
        [CHR 0x0A] \<and>
      Header_Get (HeaderMap (sendMultiSchemePaymentRequired std w (defaultCurrency config) r))
          ''PAYMENT-REQUIRED''
        = base64_EncodeToString
            (json_Marshal std
               (PaymentRequiredResponse_json (multiSchemeResponse (defaultCurrency config) r))))"
  (is "?noToken \<and> ?noParse \<and> ?noScheme \<and> ?invalid \<and> ?shape")
proof (intro conjI)
  have exempt: "ExemptPaths (defaultCurrency config) = ExemptPaths config"
    and methods: "AcceptedMethods (defaultCurrency config) = AcceptedMethods config"
    and reg: "registryOf (defaultCurrency config) DefaultRegistry
                = registryOf config DefaultRegistry"
    by (simp_all add: defaultCurrency_def registryOf_def)
  show ?noToken
    by (simp add: MultiSchemeMiddleware_def Let_def exempt methods)
  show ?noParse
    by (simp add: MultiSchemeMiddleware_def Let_def exempt methods)
  show ?noScheme
    by (simp add: MultiSchemeMiddleware_def Let_def exempt methods reg)
  show ?invalid
    by (auto simp: MultiSchemeMiddleware_def Let_def exempt methods reg split: option.splits)
  show ?shape
  proof
    assume fresh: "ResponseWriter.Code w = None"
    let ?resp = "multiSchemeResponse (defaultCurrency config) r"
    have "PaymentRequiredResponse_json ?resp =
           JObject [(''x402Version'', JNumber 1),
                    (''accepts'', JArray (map PaymentRequirements_json (Accepts ?resp))),
                    (''error'',
                     JString ''Payment required - select a supported scheme and network'')]"
      using multiSchemeResponse_shape [of "defaultCurrency config" r]
      by (simp add: PaymentRequiredResponse_json_def)
    moreover have "Accepts ?resp \<noteq> []"
      using multiSchemeResponse_shape [of "defaultCurrency config" r] by simp
    ultimately have doc: "\<exists>accepts. accepts \<noteq> [] \<and>
         PaymentRequiredResponse_json ?resp =
           JObject [(''x402Version'', JNumber 1),
                    (''accepts'', JArray (map PaymentRequirements_json accepts)),
                    (''error'',
                     JString ''Payment required - select a supported scheme and network'')]"
      by blast
    from sendMultiSchemePaymentRequired_shape(1-3) [OF fresh, of std "defaultCurrency config" r] doc
    show "ResponseWriter.Code (sendMultiSchemePaymentRequired std w (defaultCurrency config) r)
        = Some 402 \<and>
      (\<exists>accepts. accepts \<noteq> [] \<and>
         PaymentRequiredResponse_json (multiSchemeResponse (defaultCurrency config) r) =
           JObject [(''x402Version'', JNumber 1),
                    (''accepts'', JArray (map PaymentRequirements_json accepts)),
                    (''error'',
                     JString ''Payment required - select a supported scheme and network'')]) \<and>
      ResponseWriter.Body (sendMultiSchemePaymentRequired std w (defaultCurrency config) r) =
        ResponseWriter.Body w @
        json_Marshal std
          (PaymentRequiredResponse_json (multiSchemeResponse (defaultCurrency config) r)) @
        [CHR 0x0A] \<and>
      Header_Get (HeaderMap (sendMultiSchemePaymentRequired std w (defaultCurrency config) r))
          ''PAYMENT-REQUIRED''
        = base64_EncodeToString
            (json_Marshal std
               (PaymentRequiredResponse_json (multiSchemeResponse (defaultCurrency config) r)))"
      by (intro conjI)
  qed
qed


text \<open>
  Three rejected requests: one without a token, whose response is spelled out;
  one whose payload names a scheme that is not registered; one whose registered
  verifier returns an error.
\<close>

theorem multi_scheme_rejections_uniform_witness:
  "(\<exists>w1. MultiSchemeMiddleware plainStdlib countingHandler multiConfig
            (Register NewSchemeRegistry ExactEVMScheme) NewRecorder (dataRequest []) 0
          = Inr (w1, 0) \<and>
         ResponseWriter.Code w1 = Some 402 \<and> ResponseWriter.Body w1 = ''{}'' @ [CHR 0x0A] \<and>
         Header_Get (HeaderMap w1) ''PAYMENT-REQUIRED'' = ''e30='') \<and>
   MultiSchemeMiddleware decodingStdlib countingHandler multiConfig
       (Register NewSchemeRegistry ExactEVMScheme) NewRecorder
       (dataRequest [(''X-Payment'', [''token''])]) 0
     = Inr (sendMultiSchemePaymentRequired decodingStdlib NewRecorder multiConfig
              (dataRequest [(''X-Payment'', [''token''])]), 0) \<and>
   MultiSchemeMiddleware decodingStdlib countingHandler multiConfig
       (Register NewSchemeRegistry (StripeScheme False)) NewRecorder
       (dataRequest [(''X-Payment'', [''token''])]) 0
     = Inr (sendMultiSchemePaymentRequired decodingStdlib NewRecorder multiConfig
              (dataRequest [(''X-Payment'', [''token''])]), 0)"
proof -
  note rej = multi_scheme_rejections_uniform
  have dc: "defaultCurrency multiConfig = multiConfig"
    by (simp add: defaultCurrency_def multiConfig_def)
  have fresh: "ResponseWriter.Code NewRecorder = None" by (simp add: NewRecorder_def)
  have body0: "ResponseWriter.Body NewRecorder = []" by (simp add: NewRecorder_def)
  have ne: "\<not> isExemptPath (URL_Path (dataRequest hdr)) (ExemptPaths multiConfig)" for hdr
    by (simp add: dataRequest_def multiConfig_def HasPrefix_def)
  have tok0: "extractPaymentToken plainStdlib (dataRequest []) (AcceptedMethods multiConfig) = []"
    by (simp add: extractPaymentToken_def dataRequest_def Header_Get_def plainStdlib_def Let_def)
  have tok1: "extractPaymentToken decodingStdlib (dataRequest [(''X-Payment'', [''token''])])
                (AcceptedMethods multiConfig) = ''token''"
    by (simp add: extractPaymentToken_def dataRequest_def Header_Get_def Let_def
        canonical_payment_signature canonical_x_payment)
  have parsed: "parsePaymentPayload decodingStdlib ''token'' = Inr stripePayload"
    by (simp add: parsePaymentPayload_def decodingStdlib_def plainStdlib_def Let_def)
  have marshal: "json_Marshal plainStdlib v = ''{}''" for v by (simp add: plainStdlib_def)
  have first: "MultiSchemeMiddleware plainStdlib countingHandler multiConfig
            (Register NewSchemeRegistry ExactEVMScheme) NewRecorder (dataRequest []) 0
          = Inr (sendMultiSchemePaymentRequired plainStdlib NewRecorder multiConfig (dataRequest []), 0)"
    using rej [where r = "dataRequest []" and config = multiConfig and std = plainStdlib
        and nxt = countingHandler and w = NewRecorder and h = 0
        and DefaultRegistry = "Register NewSchemeRegistry ExactEVMScheme", THEN conjunct1]
      ne tok0 by (simp add: dc)
  have shape: "ResponseWriter.Code (sendMultiSchemePaymentRequired plainStdlib NewRecorder multiConfig (dataRequest [])) = Some 402 \<and>
      ResponseWriter.Body (sendMultiSchemePaymentRequired plainStdlib NewRecorder multiConfig (dataRequest [])) = ''{}'' @ [CHR 0x0A] \<and>
      Header_Get (HeaderMap (sendMultiSchemePaymentRequired plainStdlib NewRecorder multiConfig (dataRequest []))) ''PAYMENT-REQUIRED'' = ''e30=''"
    using rej [where r = "dataRequest []" and config = multiConfig and std = plainStdlib
        and w = NewRecorder,
        THEN conjunct2, THEN conjunct2, THEN conjunct2, THEN conjunct2] fresh
    by (simp add: dc marshal body0 base64_braces)
  have unregistered: "Registry_Get (registryOf multiConfig (Register NewSchemeRegistry ExactEVMScheme))
      (PaymentPayload.Scheme stripePayload) = None"
    by (simp add: registryOf_def multiConfig_def Register_def NewSchemeRegistry_def
        Registry_Get_def ExactEVMScheme_def stripePayload_def SchemeExact_def
        SchemeStripePayment_def)
  have second: "MultiSchemeMiddleware decodingStdlib countingHandler multiConfig
       (Register NewSchemeRegistry ExactEVMScheme) NewRecorder
       (dataRequest [(''X-Payment'', [''token''])]) 0
     = Inr (sendMultiSchemePaymentRequired decodingStdlib NewRecorder multiConfig
              (dataRequest [(''X-Payment'', [''token''])]), 0)"
    using rej [where r = "dataRequest [(''X-Payment'', [''token''])]" and config = multiConfig
        and std = decodingStdlib and nxt = countingHandler and w = NewRecorder and h = 0
        and payload = stripePayload
        and DefaultRegistry = "Register NewSchemeRegistry ExactEVMScheme",
        THEN conjunct2, THEN conjunct2, THEN conjunct1]
      ne tok1 parsed unregistered by (simp add: dc)
  have registered: "Registry_Get (registryOf multiConfig (Register NewSchemeRegistry (StripeScheme False)))
      (PaymentPayload.Scheme stripePayload) = Some (StripeScheme False)"
    by (simp add: registryOf_def multiConfig_def Register_def NewSchemeRegistry_def
        Registry_Get_def StripeScheme_def stripePayload_def)
  have refused: "Verify (StripeScheme False) stripePayload
        (verificationRequirements (defaultCurrency multiConfig)
           (dataRequest [(''X-Payment'', [''token''])]) stripePayload)
      = (None, Some (Error ''use StripeRail for Stripe payment verification''))"
    by (simp add: StripeScheme_def)
  have third: "MultiSchemeMiddleware decodingStdlib countingHandler multiConfig
       (Register NewSchemeRegistry (StripeScheme False)) NewRecorder
       (dataRequest [(''X-Payment'', [''token''])]) 0
     = Inr (sendMultiSchemePaymentRequired decodingStdlib NewRecorder multiConfig
              (dataRequest [(''X-Payment'', [''token''])]), 0)"
    using rej [where r = "dataRequest [(''X-Payment'', [''token''])]" and config = multiConfig
        and std = decodingStdlib and nxt = countingHandler and w = NewRecorder and h = 0
        and payload = stripePayload and scheme = "StripeScheme False" and result = None
        and err = "Error ''use StripeRail for Stripe payment verification''"
        and DefaultRegistry = "Register NewSchemeRegistry (StripeScheme False)",
        THEN conjunct2, THEN conjunct2, THEN conjunct2, THEN conjunct1]
      ne tok1 parsed registered refused by (simp add: dc)
  from first shape second third show ?thesis by simp
qed

subsection \<open>Idempotent replay\<close>

lemma replayHeaders_fields:
  "ResponseWriter.Code (replayHeaders kvs w) = ResponseWriter.Code w"
  "ResponseWriter.Body (replayHeaders kvs w) = ResponseWriter.Body w"
  by (induction kvs arbitrary: w) (auto simp: SetHeader_def)

lemma replayHeaders_other:
  "CanonicalMIMEHeaderKey key \<notin> set (map (\<lambda>p. CanonicalMIMEHeaderKey (fst p)) kvs) \<Longrightarrow>
     Header_Get (HeaderMap (replayHeaders kvs w)) key = Header_Get (HeaderMap w) key"
  by (induction kvs arbitrary: w) (auto simp: SetHeader_def Header_Get_Set)

lemma canonical_replay_key:
  "CanonicalMIMEHeaderKey ''X-Idempotent-Replay'' = ''X-Idempotent-Replay''"
  by code_simp

lemma Idempotency_Get_Some_iff:
  "Idempotency_Get store key now = Some cached \<longleftrightarrow>
     records store key = Some cached \<and> now \<le> IdempotencyRecord.ExpiresAt cached"
  by (auto simp: Idempotency_Get_def split: option.splits)

lemma Idempotency_Get_None_iff:
  "Idempotency_Get store key now = None \<longleftrightarrow>
     records store key = None \<or>
     (\<exists>rec. records store key = Some rec \<and> IdempotencyRecord.ExpiresAt rec < now)"
  by (auto simp: Idempotency_Get_def split: option.splits)

lemma AIFirst_replay:
  assumes "EnableIdempotency config" and "IdempotencyStore config = Some store"
    and "Header_Get (Header r) ''Idempotency-Key'' \<noteq> []"
    and "Idempotency_Get store (Header_Get (Header r) ''Idempotency-Key'') (atGet t) = Some cached"
  shows "AIFirstMiddleware std nxt config t w r h =
     (Write (IdempotencyRecord.Body cached)
        (WriteHeader (StatusCode cached)
           (SetHeader ''X-Idempotent-Replay'' ''true''
              (replayHeaders (Headers cached)
                 (SetHeader ''X-AI-Optimized'' ''true''
                    (SetHeader ''X-Request-ID'' (generateRequestID std r (atRequestID t))
                       (SetHeader ''Content-Type'' ''application/json'' w)))))),
      h, PreAuthStore config, IdempotencyStore config)"
  using assms by (simp add: AIFirstMiddleware_def Let_def)

lemma AIFirst_first_request:
  assumes "EnableIdempotency config" and "IdempotencyStore config = Some store"
    and "Header_Get (Header r) ''Idempotency-Key'' \<noteq> []"
    and "Idempotency_Get store (Header_Get (Header r) ''Idempotency-Key'') (atGet t) = None"
    and "\<not> EnablePreAuth config"
  shows "AIFirstMiddleware std nxt config t w r h =
     (case ServeRecorded nxt
             \<lparr>ResponseWriter_f =
                SetHeader ''X-AI-Optimized'' ''true''
                  (SetHeader ''X-Request-ID'' (generateRequestID std r (atRequestID t))
                     (SetHeader ''Content-Type'' ''application/json'' w)),
              statusCode = 200, body = []\<rparr> r h of
        (wrapped1, h1) \<Rightarrow>
          (ResponseWriter_f wrapped1, h1, PreAuthStore config,
           Some (Idempotency_Set store (Header_Get (Header r) ''Idempotency-Key'')
                   \<lparr>Key = [], StatusCode = statusCode wrapped1,
                    Headers = snapshotHeaders (HeaderMap (ResponseWriter_f wrapped1)),
                    IdempotencyRecord.Body = body wrapped1, IdempotencyRecord.CreatedAt = 0,
                    IdempotencyRecord.ExpiresAt =
                      atExpiry t + (if IdempotencyTTL config = 0 then 24 * Hour
                                    else IdempotencyTTL config)\<rparr>
                   (atSetCreated t) (atSetDefault t))))"
  using assms
  by (simp add: AIFirstMiddleware_def Let_def split: option.splits prod.splits)


lemma aiHeaders_fields:
  "ResponseWriter.Code (aiHeaders std r t w) = ResponseWriter.Code w"
  "ResponseWriter.Body (aiHeaders std r t w) = ResponseWriter.Body w"
  by (simp_all add: aiHeaders_def SetHeader_def)

lemma replayed_fields:
  assumes "ResponseWriter.Code w = None"
  shows "ResponseWriter.Code (replayed cached w) = Some (StatusCode cached)"
    and "ResponseWriter.Body (replayed cached w) =
           ResponseWriter.Body w @ IdempotencyRecord.Body cached"
    and "Header_Get (HeaderMap (replayed cached w)) ''X-Idempotent-Replay'' = ''true''"
  using assms
  by (simp_all add: replayed_def Write_def WriteHeader_def SetHeader_def Let_def
      replayHeaders_fields Header_Get_Set)

lemma AIFirst_replay':
  assumes "EnableIdempotency config" and "IdempotencyStore config = Some store"
    and "Header_Get (Header r) ''Idempotency-Key'' \<noteq> []"
    and "Idempotency_Get store (Header_Get (Header r) ''Idempotency-Key'') (atGet t) = Some cached"
  shows "AIFirstMiddleware std nxt config t w r h =
     (replayed cached (aiHeaders std r t w), h, PreAuthStore config, IdempotencyStore config)"
  using AIFirst_replay [OF assms] by (simp add: replayed_def aiHeaders_def)

lemma canonical_idempotency_key:
  "CanonicalMIMEHeaderKey ''Idempotency-Key'' = ''Idempotency-Key''"
  by code_simp

lemma replayHeaders_agree:
  assumes "(k, v) \<in> set kvs"
    and "\<forall>(k', v') \<in> set kvs. CanonicalMIMEHeaderKey k' = CanonicalMIMEHeaderKey k \<longrightarrow> v' = v"
  shows "Header_Get (HeaderMap (replayHeaders kvs w)) k = v"
proof -
  define c where "c = CanonicalMIMEHeaderKey k"
  have "c \<in> set (map (\<lambda>p. CanonicalMIMEHeaderKey (fst p)) kvs) \<Longrightarrow>
        \<forall>(k', v') \<in> set kvs. CanonicalMIMEHeaderKey k' = c \<longrightarrow> v' = v \<Longrightarrow>
        Header_Get (HeaderMap (replayHeaders kvs w)) k = v" for w
  proof (induction kvs arbitrary: w)
    case Nil
    then show ?case by simp
  next
    case (Cons p kvs)
    obtain k' v' where p: "p = (k', v')" by (cases p)
    show ?case
    proof (cases "c \<in> set (map (\<lambda>p. CanonicalMIMEHeaderKey (fst p)) kvs)")
      case True
      moreover from Cons.prems(2)
      have "\<forall>(k', v') \<in> set kvs. CanonicalMIMEHeaderKey k' = c \<longrightarrow> v' = v" by simp
      ultimately have "Header_Get (HeaderMap (replayHeaders kvs (SetHeader k' v' w))) k = v"
        by (rule Cons.IH)
      with p show ?thesis by simp
    next
      case False
      with Cons.prems(1) p have head: "CanonicalMIMEHeaderKey k' = c" by simp
      with Cons.prems(2) p have val: "v' = v" by simp
      from False have "Header_Get (HeaderMap (replayHeaders kvs (SetHeader k' v' w))) k
                       = Header_Get (HeaderMap (SetHeader k' v' w)) k"
        unfolding c_def by (rule replayHeaders_other)
      with head val p show ?thesis by (simp add: SetHeader_def Header_Get_Set c_def)
    qed
  qed
  moreover from assms(1) have "c \<in> set (map (\<lambda>p. CanonicalMIMEHeaderKey (fst p)) kvs)"
    unfolding c_def by force
  ultimately show ?thesis using assms(2) unfolding c_def by blast
qed

lemma replayed_header:
  assumes "(k, v) \<in> set (Headers cached)"
    and "\<forall>(k', v') \<in> set (Headers cached).
           CanonicalMIMEHeaderKey k' = CanonicalMIMEHeaderKey k \<longrightarrow> v' = v"
  shows "Header_Get (HeaderMap (replayed cached w)) k =
           (if CanonicalMIMEHeaderKey k = ''X-Idempotent-Replay'' then ''true'' else v)"
  using replayHeaders_agree [OF assms, of w]
  by (simp add: replayed_def Write_def WriteHeader_def SetHeader_def Let_def
      Header_Get_Set canonical_replay_key)

lemma canonical_x_custom: "CanonicalMIMEHeaderKey ''X-Custom'' = ''X-Custom''"
  by code_simp

lemma canonical_lower_a: "CanonicalMIMEHeaderKey ''x-a'' = ''X-A''"
  by code_simp

lemma canonical_upper_a: "CanonicalMIMEHeaderKey ''X-A'' = ''X-A''"
  by code_simp

lemma replayOf_replayed:
  assumes "5 \<le> IdempotencyRecord.ExpiresAt cached"
  shows "replayOf cached =
           replayed cached
             (aiHeaders plainStdlib (dataRequest [(''Idempotency-Key'', [''key_123''])])
                (readingsAt 5) NewRecorder)"
proof -
  let ?r = "dataRequest [(''Idempotency-Key'', [''key_123''])]"
  let ?config = "aiConfig\<lparr>IdempotencyStore := Some \<lparr>records = [''key_123'' \<mapsto> cached]\<rparr>\<rparr>"
  have key: "Header_Get (Header ?r) ''Idempotency-Key'' = ''key_123''"
    by (simp add: Header_Get_def dataRequest_def canonical_idempotency_key)
  have en: "EnableIdempotency ?config" by (simp add: aiConfig_def)
  have st: "IdempotencyStore ?config = Some \<lparr>records = [''key_123'' \<mapsto> cached]\<rparr>" by simp
  have ne: "Header_Get (Header ?r) ''Idempotency-Key'' \<noteq> []" by (simp add: key)
  have got: "Idempotency_Get \<lparr>records = [''key_123'' \<mapsto> cached]\<rparr>
               (Header_Get (Header ?r) ''Idempotency-Key'') (atGet (readingsAt 5)) = Some cached"
    using assms by (simp add: key Idempotency_Get_def readingsAt_def)
  show ?thesis
    unfolding replayOf_def
    by (simp add: AIFirst_replay' [OF en st ne got])
qed

text \<open>
  C3, as far as the code goes. The claim as stated fails at the expiry instant
  itself: \<^verbatim>\<open>Get\<close> masks a record only when the clock is after
  \<^verbatim>\<open>ExpiresAt\<close>, so at \<^verbatim>\<open>now = expiresAt\<close> the record is still returned
  although \<^verbatim>\<open>now < expiresAt\<close> is false. It also fails for two kinds of
  cached header. A cached \<^verbatim>\<open>X-Idempotent-Replay\<close> is overwritten with
  \<^verbatim>\<open>true\<close>. Of two cached headers whose names have the same canonical form
  (\<^verbatim>\<open>x-a\<close> and \<^verbatim>\<open>X-A\<close>) only the one set last is sent, in whichever order
  the record's headers are ranged over. And with idempotency switched off in the
  configuration a live record is not replayed: the handler is called and its 200
  is the answer, not the cached 201.
\<close>

theorem idempotent_replay_counterexample:
  "Idempotency_Get \<lparr>records = [''key_123'' \<mapsto> cachedRecord]\<rparr> ''key_123'' 10 = Some cachedRecord \<and>
   \<not> (10 < IdempotencyRecord.ExpiresAt cachedRecord) \<and>
   (''X-Idempotent-Replay'', ''false'')
     \<in> set (Headers (cachedRecord\<lparr>Headers := [(''X-Idempotent-Replay'', ''false'')]\<rparr>)) \<and>
   Header_Get (HeaderMap (replayOf (cachedRecord\<lparr>Headers := [(''X-Idempotent-Replay'', ''false'')]\<rparr>)))
     ''X-Idempotent-Replay'' = ''true'' \<and>
   (''x-a'', ''1'') \<in> set (Headers (cachedRecord\<lparr>Headers := [(''x-a'', ''1''), (''X-A'', ''2'')]\<rparr>)) \<and>
   Header_Get (HeaderMap (replayOf (cachedRecord\<lparr>Headers := [(''x-a'', ''1''), (''X-A'', ''2'')]\<rparr>)))
     ''x-a'' = ''2'' \<and>
   (''X-A'', ''2'') \<in> set (Headers (cachedRecord\<lparr>Headers := [(''X-A'', ''2''), (''x-a'', ''1'')]\<rparr>)) \<and>
   Header_Get (HeaderMap (replayOf (cachedRecord\<lparr>Headers := [(''X-A'', ''2''), (''x-a'', ''1'')]\<rparr>)))
     ''X-A'' = ''1'' \<and>
   (5::int) < IdempotencyRecord.ExpiresAt cachedRecord \<and>
   fst (snd (AIFirstMiddleware plainStdlib countingHandler
               (aiConfig\<lparr>EnableIdempotency := False,
                         IdempotencyStore := Some \<lparr>records = [''key_123'' \<mapsto> cachedRecord]\<rparr>\<rparr>)
               (readingsAt 5) NewRecorder (dataRequest [(''Idempotency-Key'', [''key_123''])]) 0))
     = 1 \<and>
   ResponseWriter.Code
     (fst (AIFirstMiddleware plainStdlib countingHandler
               (aiConfig\<lparr>EnableIdempotency := False,
                         IdempotencyStore := Some \<lparr>records = [''key_123'' \<mapsto> cachedRecord]\<rparr>\<rparr>)
               (readingsAt 5) NewRecorder (dataRequest [(''Idempotency-Key'', [''key_123''])]) 0))
     = Some 200 \<and>
   StatusCode cachedRecord = 201"
proof -
  have live: "5 \<le> IdempotencyRecord.ExpiresAt (cachedRecord\<lparr>Headers := hs\<rparr>)" for hs
    by (simp add: cachedRecord_def)
  have boundary: "Idempotency_Get \<lparr>records = [''key_123'' \<mapsto> cachedRecord]\<rparr> ''key_123'' 10
                    = Some cachedRecord \<and> \<not> (10 < IdempotencyRecord.ExpiresAt cachedRecord)"
    by (simp add: Idempotency_Get_def cachedRecord_def)
  have own: "Header_Get (HeaderMap (replayOf (cachedRecord\<lparr>Headers := [(''X-Idempotent-Replay'', ''false'')]\<rparr>)))
     ''X-Idempotent-Replay'' = ''true''"
    by (simp add: replayOf_replayed [OF live] replayed_def Write_def WriteHeader_def
        SetHeader_def Let_def Header_Get_Set)
  have lower: "Header_Get (HeaderMap (replayOf (cachedRecord\<lparr>Headers := [(''x-a'', ''1''), (''X-A'', ''2'')]\<rparr>)))
     ''x-a'' = ''2''"
    by (simp add: replayOf_replayed [OF live] replayed_def Write_def WriteHeader_def
        SetHeader_def Let_def Header_Get_Set canonical_lower_a canonical_upper_a
        canonical_replay_key)
  have upper: "Header_Get (HeaderMap (replayOf (cachedRecord\<lparr>Headers := [(''X-A'', ''2''), (''x-a'', ''1'')]\<rparr>)))
     ''X-A'' = ''1''"
    by (simp add: replayOf_replayed [OF live] replayed_def Write_def WriteHeader_def
        SetHeader_def Let_def Header_Get_Set canonical_lower_a canonical_upper_a
        canonical_replay_key)
  have disabled: "(5::int) < IdempotencyRecord.ExpiresAt cachedRecord \<and>
   fst (snd (AIFirstMiddleware plainStdlib countingHandler
               (aiConfig\<lparr>EnableIdempotency := False,
                         IdempotencyStore := Some \<lparr>records = [''key_123'' \<mapsto> cachedRecord]\<rparr>\<rparr>)
               (readingsAt 5) NewRecorder (dataRequest [(''Idempotency-Key'', [''key_123''])]) 0))
     = 1 \<and>
   ResponseWriter.Code
     (fst (AIFirstMiddleware plainStdlib countingHandler
               (aiConfig\<lparr>EnableIdempotency := False,
                         IdempotencyStore := Some \<lparr>records = [''key_123'' \<mapsto> cachedRecord]\<rparr>\<rparr>)
               (readingsAt 5) NewRecorder (dataRequest [(''Idempotency-Key'', [''key_123''])]) 0))
     = Some 200 \<and>
   StatusCode cachedRecord = 201"
    by (simp add: AIFirstMiddleware_def Let_def aiConfig_def cachedRecord_def ServeRecorded_def
        countingHandler_def Header_Get_def dataRequest_def canonical_idempotency_key
        NewRecorder_def SetHeader_def WriteHeader_def Write_def)
  from boundary own lower upper disabled show ?thesis by simp
qed

text \<open>
  C3, amended. \<^verbatim>\<open>Get\<close> returns the cached record exactly when a record for
  the key is present and the clock is not after its \<^verbatim>\<open>ExpiresAt\<close>
  (\<^verbatim>\<open>now \<le> expiresAt\<close>), and otherwise returns nothing. With idempotency
  enabled and a store configured, a request whose \<^verbatim>\<open>Idempotency-Key\<close> names
  such a record is answered from it: the cached status code, the cached body,
  the header \<^verbatim>\<open>X-Idempotent-Replay\<close> set to \<^verbatim>\<open>true\<close>, and each cached
  header whose value is shared by every cached header of the same canonical name
  (so each header whose canonical name is unique in the record) with its cached
  value, unless that name is \<^verbatim>\<open>X-Idempotent-Replay\<close>; the downstream
  handler's state is untouched and both stores are as they were. Consequently
  (last part, with pre-authorization off): after a first request with a key that
  had no live record, a second request with the same key whose clock is not after
  the stored expiry gets the status and body that the first request recorded, and
  the handler is not invoked again.
\<close>

theorem idempotent_replay:
  "(Idempotency_Get store key now = Some cached \<longleftrightarrow>
      records store key = Some cached \<and> now \<le> IdempotencyRecord.ExpiresAt cached) \<and>
   (Idempotency_Get store key now = None \<longleftrightarrow>
      records store key = None \<or>
      (\<exists>rec. records store key = Some rec \<and> IdempotencyRecord.ExpiresAt rec < now)) \<and>
   (EnableIdempotency config \<and> IdempotencyStore config = Some store \<and>
    Header_Get (Header r) ''Idempotency-Key'' = key \<and> key \<noteq> [] \<and>
    records store key = Some cached \<and> atGet t \<le> IdempotencyRecord.ExpiresAt cached \<and>
    ResponseWriter.Code w = None \<longrightarrow>
      (case AIFirstMiddleware std nxt config t w r h of
         (w1, h1, pre1, idem1) \<Rightarrow>
           ResponseWriter.Code w1 = Some (StatusCode cached) \<and>
           ResponseWriter.Body w1 = ResponseWriter.Body w @ IdempotencyRecord.Body cached \<and>
           Header_Get (HeaderMap w1) ''X-Idempotent-Replay'' = ''true'' \<and>
           list_all (\<lambda>(k, v).
               list_all (\<lambda>(k', v'). CanonicalMIMEHeaderKey k' = CanonicalMIMEHeaderKey k
                                     \<longrightarrow> v' = v) (Headers cached) \<longrightarrow>
               Header_Get (HeaderMap w1) k =
                 (if CanonicalMIMEHeaderKey k = ''X-Idempotent-Replay'' then ''true'' else v))
             (Headers cached) \<and>
           h1 = h \<and> pre1 = PreAuthStore config \<and> idem1 = IdempotencyStore config)) \<and>
   (EnableIdempotency config \<and> \<not> EnablePreAuth config \<and>
    IdempotencyStore config = Some store \<and>
    Header_Get (Header r) ''Idempotency-Key'' = key \<and> key \<noteq> [] \<and>
    Idempotency_Get store key (atGet t) = None \<and>
    Header_Get (Header r2) ''Idempotency-Key'' = key \<and>
    atGet t2 \<le> (if atExpiry t + (if IdempotencyTTL config = 0 then 24 * Hour
                                    else IdempotencyTTL config) = 0
                 then atSetDefault t + 24 * Hour
                 else atExpiry t + (if IdempotencyTTL config = 0 then 24 * Hour
                                    else IdempotencyTTL config)) \<and>
    ResponseWriter.Code w2 = None \<longrightarrow>
      (case AIFirstMiddleware std nxt config t w r h of
         (w1, h1, pre1, idem1) \<Rightarrow>
           (case ServeRecorded nxt
                   \<lparr>ResponseWriter_f = aiHeaders std r t w, statusCode = 200, body = []\<rparr> r h of
              (wrapped1, hServed) \<Rightarrow>
                w1 = ResponseWriter_f wrapped1 \<and> h1 = hServed \<and>
                (case AIFirstMiddleware std nxt
                        (config\<lparr>PreAuthStore := pre1, IdempotencyStore := idem1\<rparr>) t2 w2 r2 h1 of
                   (w3, h3, pre3, idem3) \<Rightarrow>
                     h3 = h1 \<and> idem3 = idem1 \<and>
                     ResponseWriter.Code w3 = Some (statusCode wrapped1) \<and>
                     ResponseWriter.Body w3 = ResponseWriter.Body w2 @ body wrapped1))))"
  (is "?some \<and> ?none \<and> ?replay \<and> ?twice")
proof (intro conjI)
  show ?some by (rule Idempotency_Get_Some_iff)
  show ?none by (rule Idempotency_Get_None_iff)
  show ?replay
  proof
    assume a: "EnableIdempotency config \<and> IdempotencyStore config = Some store \<and>
      Header_Get (Header r) ''Idempotency-Key'' = key \<and> key \<noteq> [] \<and>
      records store key = Some cached \<and> atGet t \<le> IdempotencyRecord.ExpiresAt cached \<and>
      ResponseWriter.Code w = None"
    then have got: "Idempotency_Get store (Header_Get (Header r) ''Idempotency-Key'') (atGet t)
                    = Some cached"
      by (simp add: Idempotency_Get_Some_iff)
    from a have en: "EnableIdempotency config" and st: "IdempotencyStore config = Some store"
      and ne: "Header_Get (Header r) ''Idempotency-Key'' \<noteq> []"
      by auto
    have run: "AIFirstMiddleware std nxt config t w r h =
       (replayed cached (aiHeaders std r t w), h, PreAuthStore config, IdempotencyStore config)"
      by (rule AIFirst_replay' [OF en st ne got])
    have fresh: "ResponseWriter.Code (aiHeaders std r t w) = None"
      using a by (simp add: aiHeaders_fields)
    have hdrs: "list_all (\<lambda>(k, v).
               list_all (\<lambda>(k', v'). CanonicalMIMEHeaderKey k' = CanonicalMIMEHeaderKey k
                                     \<longrightarrow> v' = v) (Headers cached) \<longrightarrow>
               Header_Get (HeaderMap (replayed cached (aiHeaders std r t w))) k =
                 (if CanonicalMIMEHeaderKey k = ''X-Idempotent-Replay'' then ''true'' else v))
             (Headers cached)"
      unfolding list_all_iff using replayed_header by fastforce
    show "case AIFirstMiddleware std nxt config t w r h of
         (w1, h1, pre1, idem1) \<Rightarrow>
           ResponseWriter.Code w1 = Some (StatusCode cached) \<and>
           ResponseWriter.Body w1 = ResponseWriter.Body w @ IdempotencyRecord.Body cached \<and>
           Header_Get (HeaderMap w1) ''X-Idempotent-Replay'' = ''true'' \<and>
           list_all (\<lambda>(k, v).
               list_all (\<lambda>(k', v'). CanonicalMIMEHeaderKey k' = CanonicalMIMEHeaderKey k
                                     \<longrightarrow> v' = v) (Headers cached) \<longrightarrow>
               Header_Get (HeaderMap w1) k =
                 (if CanonicalMIMEHeaderKey k = ''X-Idempotent-Replay'' then ''true'' else v))
             (Headers cached) \<and>
           h1 = h \<and> pre1 = PreAuthStore config \<and> idem1 = IdempotencyStore config"
      using replayed_fields [OF fresh, of cached] hdrs
      by (simp add: run aiHeaders_fields)
  qed
  show ?twice
  proof
    let ?ttl = "if IdempotencyTTL config = 0 then 24 * Hour else IdempotencyTTL config"
    let ?expiry = "if atExpiry t + ?ttl = 0 then atSetDefault t + 24 * Hour
                   else atExpiry t + ?ttl"
    assume a: "EnableIdempotency config \<and> \<not> EnablePreAuth config \<and>
      IdempotencyStore config = Some store \<and>
      Header_Get (Header r) ''Idempotency-Key'' = key \<and> key \<noteq> [] \<and>
      Idempotency_Get store key (atGet t) = None \<and>
      Header_Get (Header r2) ''Idempotency-Key'' = key \<and>
      atGet t2 \<le> ?expiry \<and> ResponseWriter.Code w2 = None"
    obtain wrapped1 hServed where served:
      "ServeRecorded nxt
         \<lparr>ResponseWriter_f = aiHeaders std r t w, statusCode = 200, body = []\<rparr> r h
       = (wrapped1, hServed)"
      by (cases "ServeRecorded nxt
         \<lparr>ResponseWriter_f = aiHeaders std r t w, statusCode = 200, body = []\<rparr> r h")
    define rec1 where "rec1 =
      \<lparr>Key = key, StatusCode = statusCode wrapped1,
       Headers = snapshotHeaders (HeaderMap (ResponseWriter_f wrapped1)),
       IdempotencyRecord.Body = body wrapped1,
       IdempotencyRecord.CreatedAt = atSetCreated t, IdempotencyRecord.ExpiresAt = ?expiry\<rparr>"
    define store1 where "store1 = store\<lparr>records := (records store)(key \<mapsto> rec1)\<rparr>"
    have first: "AIFirstMiddleware std nxt config t w r h =
        (ResponseWriter_f wrapped1, hServed, PreAuthStore config, Some store1)"
      using a served
      by (simp add: AIFirst_first_request [of config store r t std nxt w h] aiHeaders_def
          Idempotency_Set_def Let_def store1_def rec1_def)
    let ?config2 = "config\<lparr>IdempotencyStore := Some store1\<rparr>"
    have got: "Idempotency_Get store1 (Header_Get (Header r2) ''Idempotency-Key'') (atGet t2)
               = Some rec1"
      using a by (simp add: Idempotency_Get_Some_iff store1_def rec1_def)
    from a have en2: "EnableIdempotency ?config2"
      and st2: "IdempotencyStore ?config2 = Some store1"
      and ne2: "Header_Get (Header r2) ''Idempotency-Key'' \<noteq> []"
      by auto
    have second: "AIFirstMiddleware std nxt ?config2 t2 w2 r2 hServed =
       (replayed rec1 (aiHeaders std r2 t2 w2), hServed, PreAuthStore ?config2,
        IdempotencyStore ?config2)"
      by (rule AIFirst_replay' [OF en2 st2 ne2 got])
    have fresh: "ResponseWriter.Code (aiHeaders std r2 t2 w2) = None"
      using a by (simp add: aiHeaders_fields)
    show "case AIFirstMiddleware std nxt config t w r h of
         (w1, h1, pre1, idem1) \<Rightarrow>
           (case ServeRecorded nxt
                   \<lparr>ResponseWriter_f = aiHeaders std r t w, statusCode = 200, body = []\<rparr> r h of
              (wrapped1, hServed) \<Rightarrow>
                w1 = ResponseWriter_f wrapped1 \<and> h1 = hServed \<and>
                (case AIFirstMiddleware std nxt
                        (config\<lparr>PreAuthStore := pre1, IdempotencyStore := idem1\<rparr>) t2 w2 r2 h1 of
                   (w3, h3, pre3, idem3) \<Rightarrow>
                     h3 = h1 \<and> idem3 = idem1 \<and>
                     ResponseWriter.Code w3 = Some (statusCode wrapped1) \<and>
                     ResponseWriter.Body w3 = ResponseWriter.Body w2 @ body wrapped1))"
      using replayed_fields(1,2) [OF fresh, of rec1]
      by (simp add: first served second aiHeaders_fields rec1_def)
  qed
qed



text \<open>
  A replay of the cached record at its expiry instant, with its own header, and
  two requests with the same key against the counting handler, the second one
  exactly 24 hours after the first: the handler has been called once, and the
  second answer is the recorded 200 with body \<^verbatim>\<open>ok\<close>.
\<close>

theorem idempotent_replay_witness:
  "(case AIFirstMiddleware plainStdlib countingHandler
           (aiConfig\<lparr>IdempotencyStore := Some \<lparr>records = [''key_123'' \<mapsto> cachedRecord]\<rparr>\<rparr>)
           (readingsAt 10) NewRecorder (dataRequest [(''Idempotency-Key'', [''key_123''])]) 0 of
      (w1, h1, pre1, idem1) \<Rightarrow>
        ResponseWriter.Code w1 = Some 201 \<and>
        ResponseWriter.Body w1 = ''{\"result\":\"success\"}'' \<and>
        Header_Get (HeaderMap w1) ''X-Custom'' = ''value'' \<and> h1 = 0) \<and>
   (case AIFirstMiddleware plainStdlib countingHandler aiConfig (readingsAt 5) NewRecorder
           (dataRequest [(''Idempotency-Key'', [''key_123''])]) 0 of
      (w1, h1, pre1, idem1) \<Rightarrow>
        h1 = 1 \<and>
        (case AIFirstMiddleware plainStdlib countingHandler
                (aiConfig\<lparr>PreAuthStore := pre1, IdempotencyStore := idem1\<rparr>)
                (readingsAt (5 + 24 * Hour)) NewRecorder
                (dataRequest [(''Idempotency-Key'', [''key_123''])]) h1 of
           (w3, h3, pre3, idem3) \<Rightarrow>
             h3 = 1 \<and> ResponseWriter.Code w3 = Some 200 \<and> ResponseWriter.Body w3 = ''ok''))"
proof -
  let ?r = "dataRequest [(''Idempotency-Key'', [''key_123''])]"
  let ?held = "\<lparr>records = [''key_123'' \<mapsto> cachedRecord]\<rparr>"
  note rp = idempotent_replay
  have key: "Header_Get (Header ?r) ''Idempotency-Key'' = ''key_123''"
    by (simp add: Header_Get_def dataRequest_def canonical_idempotency_key)
  have fresh: "ResponseWriter.Code NewRecorder = None" and empty: "ResponseWriter.Body NewRecorder = []"
    by (simp_all add: NewRecorder_def)
  have replay: "case AIFirstMiddleware plainStdlib countingHandler
           (aiConfig\<lparr>IdempotencyStore := Some ?held\<rparr>) (readingsAt 10) NewRecorder ?r 0 of
      (w1, h1, pre1, idem1) \<Rightarrow>
        ResponseWriter.Code w1 = Some 201 \<and>
        ResponseWriter.Body w1 = ''{\"result\":\"success\"}'' \<and>
        Header_Get (HeaderMap w1) ''X-Custom'' = ''value'' \<and> h1 = 0"
    using rp [where config = "aiConfig\<lparr>IdempotencyStore := Some ?held\<rparr>" and store = ?held
        and r = ?r and key = "''key_123''" and cached = cachedRecord and t = "readingsAt 10"
        and w = NewRecorder and std = plainStdlib and nxt = countingHandler and h = 0,
        THEN conjunct2, THEN conjunct2, THEN conjunct1]
      key fresh empty
    by (simp add: aiConfig_def cachedRecord_def readingsAt_def canonical_content_type
        canonical_x_custom split: prod.splits)
  have served: "ServeRecorded countingHandler
          \<lparr>ResponseWriter_f = aiHeaders plainStdlib ?r (readingsAt 5) NewRecorder,
           statusCode = 200, body = []\<rparr> ?r 0
        = (\<lparr>ResponseWriter_f =
              Write ''ok'' (WriteHeader 200 (aiHeaders plainStdlib ?r (readingsAt 5) NewRecorder)),
            statusCode = 200, body = ''ok''\<rparr>, 1)"
    by (simp add: ServeRecorded_def countingHandler_def)
  have none: "Idempotency_Get NewInMemoryIdempotencyStore ''key_123'' (atGet (readingsAt 5)) = None"
    by (simp add: Idempotency_Get_def NewInMemoryIdempotencyStore_def)
  have due: "atGet (readingsAt (5 + 24 * Hour)) \<le>
      (if atExpiry (readingsAt 5) + (if IdempotencyTTL aiConfig = 0 then 24 * Hour
                                    else IdempotencyTTL aiConfig) = 0
       then atSetDefault (readingsAt 5) + 24 * Hour
       else atExpiry (readingsAt 5) + (if IdempotencyTTL aiConfig = 0 then 24 * Hour
                                    else IdempotencyTTL aiConfig))"
    by (simp add: readingsAt_def aiConfig_def Hour_def)
  have twice: "case AIFirstMiddleware plainStdlib countingHandler aiConfig (readingsAt 5) NewRecorder
           ?r 0 of
      (w1, h1, pre1, idem1) \<Rightarrow>
        h1 = 1 \<and>
        (case AIFirstMiddleware plainStdlib countingHandler
                (aiConfig\<lparr>PreAuthStore := pre1, IdempotencyStore := idem1\<rparr>)
                (readingsAt (5 + 24 * Hour)) NewRecorder ?r h1 of
           (w3, h3, pre3, idem3) \<Rightarrow>
             h3 = 1 \<and> ResponseWriter.Code w3 = Some 200 \<and> ResponseWriter.Body w3 = ''ok'')"
    using rp [where config = aiConfig and store = NewInMemoryIdempotencyStore
        and r = ?r and ?r2.0 = ?r and key = "''key_123''" and t = "readingsAt 5"
        and ?t2.0 = "readingsAt (5 + 24 * Hour)"
        and w = NewRecorder and ?w2.0 = NewRecorder
        and std = plainStdlib and nxt = countingHandler and h = 0,
        THEN conjunct2, THEN conjunct2, THEN conjunct2]
      key fresh empty none due
    by (simp add: served aiConfig_def split: prod.splits)
  from replay twice show ?thesis by blast
qed


end
